theory Spec2Isabelle
  imports Main "HOL-Library.Sublist"
begin

section \<open>JavaScript values and library operations used by the engine\<close>

text \<open>
  The engine is a Node.js class \<open>WhatsAppEngine\<close>. Two versions of it are in the
  repository: \<open>src/index.js\<close> (credentials kept in a database) and
  \<open>src/unnamed/part_000\<close> (credentials kept in a directory, more routes, message
  handlers). Definitions taken from \<open>part_000\<close> carry the suffix \<open>_p0\<close>;
  definitions without it are from \<open>index.js\<close>, or are shared when both files have the
  same text. \<open>src/unnamed/part_001\<close> is the session store \<open>dbSessionStore.js\<close>.

  Calls into libraries the repository does not contain (the protocol socket, axios, the
  database driver, the clock) are parameters of the handlers: each handler takes the
  outcome of the calls it makes, a thrown error as \<open>Inl\<close>. Emoji in log messages are
  left out of the strings.
\<close>

text \<open>JSON values: request and response bodies, webhook payloads, push payloads.\<close>

datatype json =
    JNull
  | JBool bool
  | JNum int
  | JStr string
  | JArr "json list"
  | JObj "(string \<times> json) list"

text \<open>
  A thrown value or rejected promise, with its message. \<open>AxiosResponseError\<close> is an
  axios rejection with \<open>error.response\<close> set (status, response data);
  \<open>AxiosRequestError\<close> one with only \<open>error.request\<close> set (no response arrived:
  refused, unreachable, timed out).
\<close>

datatype js_error =
    Error string
  | AxiosResponseError string nat json
  | AxiosRequestError string

fun error_message :: "js_error \<Rightarrow> string" where
  "error_message (Error m) = m"
| "error_message (AxiosResponseError m st d) = m"
| "error_message (AxiosRequestError m) = m"

text \<open>An HTTP response: \<open>res.status(c).json(b)\<close>; \<open>res.json(b)\<close> is status 200.\<close>

type_synonym response = "nat \<times> json"

text \<open>Truthiness of a string that may be \<open>undefined\<close>: \<open>undefined\<close> and \<open>""\<close> are falsy.\<close>

fun truthy :: "string option \<Rightarrow> bool" where
  "truthy None = False"
| "truthy (Some s) = (s \<noteq> [])"

text \<open>\<open>String.prototype.includes\<close>.\<close>

fun str_includes :: "string \<Rightarrow> string \<Rightarrow> bool" where
  "str_includes [] sub = (sub = [])"
| "str_includes (c # cs) sub = (prefix sub (c # cs) \<or> str_includes cs sub)"

text \<open>
  \<open>String.prototype.replace\<close> with a string pattern: only the first occurrence is
  replaced.
\<close>

fun replace :: "string \<Rightarrow> string \<Rightarrow> string \<Rightarrow> string" where
  "replace [] pat rep = (if pat = [] then rep else [])"
| "replace (c # cs) pat rep =
     (if prefix pat (c # cs) then rep @ drop (length pat) (c # cs)
      else c # replace cs pat rep)"

text \<open>
  \<open>Array.prototype.slice(start)\<close>: a negative start counts from the end, and both
  directions are clamped to the array.
\<close>

definition slice_from :: "int \<Rightarrow> 'a list \<Rightarrow> 'a list" where
  "slice_from start xs =
     (let n = int (length xs);
          k = (if start < 0 then max (n + start) 0 else min start n)
      in drop (nat k) xs)"

text \<open>
  \<open>parseInt(req.query.limit) || 20\<close>: the argument is the result of \<open>parseInt\<close>,
  \<open>None\<close> for \<open>NaN\<close>. \<open>NaN\<close> and \<open>0\<close> are falsy.
\<close>

definition limit_or_default :: "int option \<Rightarrow> int" where
  "limit_or_default p = (case p of None \<Rightarrow> 20 | Some n \<Rightarrow> if n = 0 then 20 else n)"

text \<open>Decimal digits of a number, as a template literal prints it.\<close>

fun show_nat :: "nat \<Rightarrow> string" where
  "show_nat n =
     (if n < 10 then [''0123456789'' ! n]
      else show_nat (n div 10) @ [''0123456789'' ! (n mod 10)])"

declare show_nat.simps [simp del]

text \<open>
  A JavaScript \<open>Map\<close> with string keys: an association list in insertion order with
  distinct keys. \<open>get\<close> is \<open>map_of\<close>; \<open>set\<close> on a present key keeps its place,
  \<open>set\<close> on a new key appends.
\<close>

type_synonym 'v js_map = "(string \<times> 'v) list"

fun map_set :: "string \<Rightarrow> 'v \<Rightarrow> 'v js_map \<Rightarrow> 'v js_map" where
  "map_set k v [] = [(k, v)]"
| "map_set k v ((k', v') # m) = (if k' = k then (k, v) # m else (k', v') # map_set k v m)"

section \<open>Engine state\<close>

text \<open>\<open>this.status\<close>: one of the strings \<open>"disconnected"\<close>, \<open>"qr"\<close>, \<open>"connected"\<close>.\<close>

datatype conn_status = Disconnected | AwaitingQr | Connected

fun status_json :: "conn_status \<Rightarrow> json" where
  "status_json Disconnected = JStr ''disconnected''"
| "status_json AwaitingQr = JStr ''qr''"
| "status_json Connected = JStr ''connected''"

text \<open>The record built by the \<open>messages.upsert\<close> handler (\<open>messageData\<close>).\<close>

record message_data =
  msg_id :: string
  msg_from :: string
  msg_text :: string
  msg_timestamp :: int
  msg_fromMe :: bool

definition message_json :: "message_data \<Rightarrow> json" where
  "message_json d =
     JObj [(''id'', JStr (msg_id d)), (''from'', JStr (msg_from d)),
           (''message'', JStr (msg_text d)), (''timestamp'', JNum (msg_timestamp d)),
           (''fromMe'', JBool (msg_fromMe d))]"

text \<open>
  One \<open>axios.post(url, body, config)\<close> call: the request as issued. \<open>post_timeout\<close> is
  the \<open>timeout\<close> option, in milliseconds.
\<close>

record http_post =
  post_url :: string
  post_body :: json
  post_headers :: "(string \<times> string) list"
  post_timeout :: nat

text \<open>\<open>console.log\<close> and \<open>console.error\<close> calls: the message and the further arguments.\<close>

datatype log_entry = ConsoleLog string "json list" | ConsoleError string "json list"

text \<open>
  The fields of \<open>WhatsAppEngine\<close> and the effects its methods have on the outside:
  \<^item> \<open>sock\<close>: \<open>this.sock\<close>, \<open>None\<close> for \<open>null\<close>; of the socket only
    \<open>authState.creds\<close> is read by the code;
  \<^item> \<open>sessionDir\<close>: whether the directory \<open>this.sessionPath\<close> exists (part\_000);
  \<^item> \<open>timers\<close>: the pending \<open>setTimeout(() => this.connect(), d)\<close> calls, each by its
    delay in milliseconds, in the order they were scheduled (every timer of the code
    calls \<open>this.connect()\<close>);
  \<^item> \<open>emitted\<close>: the \<open>this.io.emit(event, payload)\<close> calls, in order;
  \<^item> \<open>posts\<close>: the \<open>axios.post\<close> calls, in order;
  \<^item> \<open>logs\<close>: the console output, in order.
\<close>

record engine =
  sock :: "json option"
  qrCode :: "string option"
  status :: conn_status
  messages :: "message_data list js_map"
  conversations :: "message_data list js_map"
  webhookUrl :: string
  sessionDir :: bool
  timers :: "nat list"
  emitted :: "(string \<times> json) list"
  posts :: "http_post list"
  logs :: "log_entry list"

text \<open>The state the constructor leaves, before \<open>connect\<close> runs.\<close>

definition init_engine :: "string \<Rightarrow> bool \<Rightarrow> engine" where
  "init_engine url dir =
     \<lparr>sock = None, qrCode = None, status = Disconnected, messages = [], conversations = [],
      webhookUrl = url, sessionDir = dir, timers = [], emitted = [], posts = [], logs = []\<rparr>"

definition setTimeout_connect :: "nat \<Rightarrow> engine \<Rightarrow> engine" where
  "setTimeout_connect d s = s\<lparr>timers := timers s @ [d]\<rparr>"

definition io_emit :: "string \<Rightarrow> json \<Rightarrow> engine \<Rightarrow> engine" where
  "io_emit ev payload s = s\<lparr>emitted := emitted s @ [(ev, payload)]\<rparr>"

definition console :: "log_entry \<Rightarrow> engine \<Rightarrow> engine" where
  "console l s = s\<lparr>logs := logs s @ [l]\<rparr>"

text \<open>\<open>broadcast()\<close>, the same in both files.\<close>

definition broadcast :: "engine \<Rightarrow> engine" where
  "broadcast s =
     io_emit ''qr'' (case qrCode s of None \<Rightarrow> JNull | Some q \<Rightarrow> JStr q)
       (io_emit ''status'' (status_json (status s)) s)"

text \<open>\<open>cleanup()\<close> of index.js (lines 185-190).\<close>

definition cleanup :: "engine \<Rightarrow> engine" where
  "cleanup s = broadcast (s\<lparr>sock := None, qrCode := None, status := Disconnected\<rparr>)"

text \<open>\<open>cleanup()\<close> of part\_000 (lines 427-435): it also removes the session directory.\<close>

definition cleanup_p0 :: "engine \<Rightarrow> engine" where
  "cleanup_p0 s =
     (let s1 = s\<lparr>sock := None, qrCode := None, status := Disconnected\<rparr>;
          s2 = (if sessionDir s1 then s1\<lparr>sessionDir := False\<rparr> else s1)
      in broadcast s2)"

section \<open>Webhook delivery\<close>

text \<open>
  What the network does with one POST: no response at all (with the error's message),
  or a response with status, status text and body.
\<close>

datatype http_outcome = NoResponse string | Responded nat string json

text \<open>
  \<open>await axios.post(...)\<close>: axios resolves with the response when \<open>validateStatus\<close>
  accepts the status and rejects otherwise; with no response it rejects. Its default
  \<open>validateStatus\<close> accepts 200 to 299.
\<close>

definition axios_default_validate :: "nat \<Rightarrow> bool" where
  "axios_default_validate st = (200 \<le> st \<and> st < 300)"

fun axios_post :: "(nat \<Rightarrow> bool) \<Rightarrow> http_outcome \<Rightarrow> js_error + (nat \<times> string)" where
  "axios_post validateStatus (NoResponse m) = Inl (AxiosRequestError m)"
| "axios_post validateStatus (Responded st txt d) =
     (if validateStatus st then Inr (st, txt)
      else Inl (AxiosResponseError (''Request failed with status code '' @ show_nat st) st d))"

definition webhook_envelope :: "string \<Rightarrow> int \<Rightarrow> json \<Rightarrow> json" where
  "webhook_envelope eventType now data =
     JObj [(''event_type'', JStr eventType), (''timestamp'', JNum now), (''data'', data)]"

text \<open>
  \<open>sendWebhook\<close> of index.js (lines 197-211). \<open>sendWebhook_try\<close> is the \<open>try\<close> block,
  \<open>sendWebhook\<close> the whole method with its \<open>catch\<close>. \<open>now\<close> is \<open>Date.now()\<close>,
  \<open>net\<close> what the network does with the request. The result is what the method's
  promise settles to: \<open>Inl\<close> would be a rejection.
\<close>

definition sendWebhook_try :: "string \<Rightarrow> json \<Rightarrow> int \<Rightarrow> http_outcome \<Rightarrow> engine \<Rightarrow> (js_error + unit) \<times> engine" where
  "sendWebhook_try eventType data now net s =
     (let payload = webhook_envelope eventType now data;
          s1 = s\<lparr>posts := posts s @
                 [\<lparr>post_url = webhookUrl s, post_body = payload,
                   post_headers = [(''Content-Type'', ''application/json'')],
                   post_timeout = 8000\<rparr>]\<rparr>
      in case axios_post axios_default_validate net of
           Inl e \<Rightarrow> (Inl e, s1)
         | Inr r \<Rightarrow> (Inr (), s1))"

definition sendWebhook :: "string \<Rightarrow> json \<Rightarrow> int \<Rightarrow> http_outcome \<Rightarrow> engine \<Rightarrow> (js_error + unit) \<times> engine" where
  "sendWebhook eventType data now net s =
     (case sendWebhook_try eventType data now net s of
        (Inl e, s1) \<Rightarrow>
          (Inr (), console (ConsoleError (''Webhook failed ('' @ eventType @ ''):'')
                              [JStr (error_message e)]) s1)
      | (Inr u, s1) \<Rightarrow> (Inr u, s1))"

text \<open>
  part\_000 is an ES module: it opens with \<open>import\<close> declarations (lines 1-11). In an
  ES module \<open>require\<close> is not defined, so evaluating \<open>require("axios")\<close> (line 444)
  throws a \<open>ReferenceError\<close>.
\<close>

definition require_axios :: "js_error + unit" where
  "require_axios = Inl (Error ''require is not defined'')"

text \<open>
  \<open>sendWebhook\<close> of part\_000 (lines 442-488). The \<open>try\<close> block starts with
  \<open>require("axios")\<close>; after it come the log line, the POST with a
  \<open>validateStatus\<close> that accepts every status below 500, and a \<open>throw\<close> on a status
  of 400 or more. The \<open>require\<close> throws before the first \<open>await\<close>, so the whole
  method, its \<open>catch\<close> included, runs inside the call, also where the caller does not
  await it.
\<close>

definition sendWebhook_try_p0 :: "string \<Rightarrow> json \<Rightarrow> int \<Rightarrow> http_outcome \<Rightarrow> engine \<Rightarrow> (js_error + unit) \<times> engine" where
  "sendWebhook_try_p0 eventType data now net s =
     (case require_axios of
        Inl e \<Rightarrow> (Inl e, s)
      | Inr axios \<Rightarrow>
          let webhookData = webhook_envelope eventType now data;
              s1 = console (ConsoleLog (''Sending webhook: '' @ eventType) [data]) s;
              s2 = s1\<lparr>posts := posts s1 @
                     [\<lparr>post_url = webhookUrl s1, post_body = webhookData,
                       post_headers = [(''Content-Type'', ''application/json''),
                                       (''User-Agent'', ''WhatsApp-Engine/1.0''),
                                       (''Accept'', ''application/json''),
                                       (''X-Requested-With'', ''XMLHttpRequest'')],
                       post_timeout = 10000\<rparr>]\<rparr>
          in case axios_post (\<lambda>st. st < 500) net of
               Inl e \<Rightarrow> (Inl e, s2)
             | Inr (st, txt) \<Rightarrow>
                 if st \<ge> 400 then (Inl (Error (''HTTP '' @ show_nat st @ '': '' @ txt)), s2)
                 else (Inr (), console (ConsoleLog (''Webhook sent successfully: '' @ eventType) []) s2))"

text \<open>
  The \<open>catch\<close> block (lines 474-487): the further lines it logs for an error with a
  \<open>response\<close> or a \<open>request\<close>; a plain \<open>Error\<close> has neither.
\<close>

fun catch_log_p0 :: "js_error \<Rightarrow> engine \<Rightarrow> engine" where
  "catch_log_p0 (AxiosResponseError m st d) s =
     console (ConsoleError ''Response data:'' [d])
       (console (ConsoleError (''Response status: '' @ show_nat st) []) s)"
| "catch_log_p0 (AxiosRequestError m) s =
     console (ConsoleError ''No response received from webhook URL'' []) s"
| "catch_log_p0 (Error m) s = s"

definition sendWebhook_p0 :: "string \<Rightarrow> json \<Rightarrow> int \<Rightarrow> http_outcome \<Rightarrow> engine \<Rightarrow> (js_error + unit) \<times> engine" where
  "sendWebhook_p0 eventType data now net s =
     (case sendWebhook_try_p0 eventType data now net s of
        (Inl e, s1) \<Rightarrow>
          (Inr (), catch_log_p0 e
                     (console (ConsoleError (''Failed to send webhook: '' @ eventType)
                                 [JStr (error_message e)]) s1))
      | (Inr u, s1) \<Rightarrow> (Inr u, s1))"

section \<open>Number lookup and the HTTP routes\<close>

text \<open>One entry of the array returned by \<open>sock.onWhatsApp\<close>.\<close>

record lookup_result =
  lr_exists :: bool
  lr_jid :: string

text \<open>
  The outcome of \<open>await this.sock.onWhatsApp(number)\<close>: it throws (also when
  \<open>this.sock\<close> is \<open>null\<close>), or returns \<open>undefined\<close> or an array.
\<close>

type_synonym lookup_outcome = "js_error + lookup_result list option"

text \<open>
  \<open>results[0]\<close> behind the guard \<open>!results?.length\<close>: \<open>None\<close> when \<open>results\<close>
  is \<open>undefined\<close> or empty, so that the guard is \<open>first_result results = None\<close>.
\<close>

fun first_result :: "lookup_result list option \<Rightarrow> lookup_result option" where
  "first_result None = None"
| "first_result (Some []) = None"
| "first_result (Some (r # rs)) = Some r"

definition error_body :: "string \<Rightarrow> json" where
  "error_body m = JObj [(''error'', JStr m)]"

definition message_sent_data :: "string \<Rightarrow> string \<Rightarrow> string \<Rightarrow> int \<Rightarrow> json" where
  "message_sent_data number mid message now =
     JObj [(''phone_number'', JStr number), (''message_id'', JStr mid),
           (''message_content'', JStr message), (''timestamp'', JNum now)]"

text \<open>
  \<open>POST /send\<close> of index.js (lines 79-109). \<open>number\<close> and \<open>message\<close> are the fields of
  \<open>req.body\<close> (\<open>None\<close> when missing); \<open>lookup\<close> is the outcome of \<open>onWhatsApp\<close>;
  \<open>sent\<close> the outcome of \<open>sendMessage\<close> followed by reading \<open>sentMessage.key.id\<close>
  (\<open>Inl\<close> when either throws, \<open>Inr\<close> the message id). The webhook is awaited before
  the response is written.
\<close>

definition post_send :: "string option \<Rightarrow> string option \<Rightarrow> lookup_outcome \<Rightarrow> js_error + string \<Rightarrow> int \<Rightarrow> http_outcome \<Rightarrow> engine \<Rightarrow> response \<times> engine" where
  "post_send number message lookup sent now net s =
     (if status s \<noteq> Connected then ((400, error_body ''WhatsApp not connected''), s)
      else if \<not> truthy number \<or> \<not> truthy message
      then ((400, error_body ''Number and message required''), s)
      else
        case lookup of
          Inl e \<Rightarrow> ((500, error_body ''Failed to send''),
                    console (ConsoleError ''Send error:'' [JStr (error_message e)]) s)
        | Inr results \<Rightarrow>
            (case first_result results of
               None \<Rightarrow> ((400, error_body ''Invalid number''), s)
             | Some r \<Rightarrow>
                 if \<not> lr_exists r then ((400, error_body ''Invalid number''), s)
                 else
                   (case sent of
                      Inl e \<Rightarrow> ((500, error_body ''Failed to send''),
                                console (ConsoleError ''Send error:'' [JStr (error_message e)]) s)
                    | Inr mid \<Rightarrow>
                        (case sendWebhook ''message_sent''
                                (message_sent_data (the number) mid (the message) now) now net s of
                           (Inl e, s1) \<Rightarrow>
                             ((500, error_body ''Failed to send''),
                              console (ConsoleError ''Send error:'' [JStr (error_message e)]) s1)
                         | (Inr u, s1) \<Rightarrow>
                             ((200, JObj [(''success'', JBool True), (''messageId'', JStr mid)]),
                              s1)))))"

text \<open>
  \<open>POST /send\<close> of part\_000 (lines 89-138): separate answers for an empty lookup and
  for a number that does not exist, and \<open>sendWebhook\<close> is called without being awaited.
\<close>

definition post_send_p0 :: "string option \<Rightarrow> string option \<Rightarrow> lookup_outcome \<Rightarrow> js_error + string \<Rightarrow> int \<Rightarrow> http_outcome \<Rightarrow> engine \<Rightarrow> response \<times> engine" where
  "post_send_p0 number message lookup sent now net s =
     (if status s \<noteq> Connected then ((400, error_body ''WhatsApp not connected''), s)
      else if \<not> truthy number \<or> \<not> truthy message
      then ((400, error_body ''Number and message are required''), s)
      else
        case lookup of
          Inl e \<Rightarrow> ((500, error_body ''Failed to send message''), s)
        | Inr results \<Rightarrow>
            (case first_result results of
               None \<Rightarrow> ((400, error_body ''Invalid number format''), s)
             | Some result \<Rightarrow>
                 if \<not> lr_exists result
                 then ((400, error_body ''Number not found on WhatsApp''), s)
                 else
                   (case sent of
                      Inl e \<Rightarrow> ((500, error_body ''Failed to send message''), s)
                    | Inr mid \<Rightarrow>
                        let s1 = snd (sendWebhook_p0 ''message_sent''
                                   (message_sent_data (the number) mid (the message) now) now net s)
                        in ((200, JObj [(''success'', JBool True),
                                        (''message'', JStr ''Message sent successfully''),
                                        (''messageId'', JStr mid)]),
                            s1))))"

text \<open>
  \<open>POST /disconnect\<close> of index.js (lines 64-77). \<open>logout\<close> is the outcome of
  \<open>await this.sock.logout()\<close>.
\<close>

definition post_disconnect :: "js_error + unit \<Rightarrow> engine \<Rightarrow> response \<times> engine" where
  "post_disconnect logout s =
     (if sock s \<noteq> None \<and> status s = Connected then
        (case logout of
           Inr u \<Rightarrow> ((200, JObj [(''success'', JBool True), (''message'', JStr ''Disconnected'')]),
                     cleanup s)
         | Inl e \<Rightarrow> ((500, JObj [(''success'', JBool False), (''error'', JStr ''Disconnect failed'')]),
                     console (ConsoleError ''Disconnect error:'' [JStr (error_message e)]) s))
      else ((200, JObj [(''success'', JBool False), (''message'', JStr ''Already disconnected'')]), s))"

text \<open>
  \<open>POST /disconnect\<close> of part\_000 (lines 66-87): after \<open>cleanup\<close> it schedules
  \<open>this.connect()\<close> one second later, also when \<open>logout\<close> throws.
\<close>

definition post_disconnect_p0 :: "js_error + unit \<Rightarrow> engine \<Rightarrow> response \<times> engine" where
  "post_disconnect_p0 logout s =
     (if sock s \<noteq> None \<and> status s = Connected then
        (case logout of
           Inr u \<Rightarrow> ((200, JObj [(''success'', JBool True),
                                 (''message'', JStr ''Disconnected successfully'')]),
                     setTimeout_connect 1000 (cleanup_p0 s))
         | Inl e \<Rightarrow> ((200, JObj [(''success'', JBool True), (''message'', JStr ''Disconnected'')]),
                     setTimeout_connect 1000 (cleanup_p0 s)))
      else ((200, JObj [(''success'', JBool False),
                        (''error'', JStr ''Not connected to WhatsApp'')]), s))"

text \<open>\<open>GET /check/:number\<close> of part\_000 (lines 140-167).\<close>

definition get_check_p0 :: "string \<Rightarrow> lookup_outcome \<Rightarrow> engine \<Rightarrow> response" where
  "get_check_p0 number lookup s =
     (if status s \<noteq> Connected then (400, error_body ''WhatsApp not connected'')
      else
        case lookup of
          Inl e \<Rightarrow> (500, error_body ''Failed to check number'')
        | Inr results \<Rightarrow>
            (case first_result results of
               None \<Rightarrow> (200, JObj [(''exists'', JBool False),
                                   (''message'', JStr ''Invalid number format'')])
             | Some result \<Rightarrow>
                 (200, JObj [(''exists'', JBool (lr_exists result)), (''number'', JStr number),
                             (''message'', JStr (if lr_exists result then ''Number exists on WhatsApp''
                                                 else ''Number not found on WhatsApp''))])))"

section \<open>Connection events\<close>

text \<open>
  The argument of the \<open>connection.update\<close> handler: \<open>connection\<close>, the status code
  \<open>lastDisconnect?.error?.output?.statusCode\<close> (\<open>None\<close> when any link of the chain is
  missing) and \<open>qr\<close>.
\<close>

record connection_update =
  upd_connection :: "string option"
  upd_statusCode :: "int option"
  upd_qr :: "string option"

text \<open>\<open>DisconnectReason.loggedOut\<close> of the protocol library.\<close>

definition loggedOut :: int where
  "loggedOut = 401"

text \<open>
  The \<open>connection.update\<close> handler of index.js (lines 155-177). \<open>toDataURL\<close> is
  \<open>qrcode.toDataURL\<close>.
\<close>

definition on_connection_update :: "(string \<Rightarrow> string) \<Rightarrow> connection_update \<Rightarrow> engine \<Rightarrow> engine" where
  "on_connection_update toDataURL u s =
     (let s1 = (if truthy (upd_qr u)
                then broadcast (s\<lparr>qrCode := Some (toDataURL (the (upd_qr u))), status := AwaitingQr\<rparr>)
                else s)
      in if upd_connection u = Some ''open'' then
           console (ConsoleLog ''WhatsApp connected'' [])
             (broadcast (s1\<lparr>status := Connected, qrCode := None\<rparr>))
         else if upd_connection u = Some ''close'' then
           let shouldReconnect = (upd_statusCode u \<noteq> Some loggedOut);
               s2 = (if shouldReconnect then setTimeout_connect 3000 s1 else s1)
           in broadcast (s2\<lparr>status := Disconnected, qrCode := None\<rparr>)
         else s1)"

text \<open>
  The \<open>connection.update\<close> handler of part\_000 (lines 312-336): the same, with
  \<open>close\<close> tested first and no log line.
\<close>

definition on_connection_update_p0 :: "(string \<Rightarrow> string) \<Rightarrow> connection_update \<Rightarrow> engine \<Rightarrow> engine" where
  "on_connection_update_p0 toDataURL u s =
     (let s1 = (if truthy (upd_qr u)
                then broadcast (s\<lparr>qrCode := Some (toDataURL (the (upd_qr u))), status := AwaitingQr\<rparr>)
                else s)
      in if upd_connection u = Some ''close'' then
           let shouldReconnect = (upd_statusCode u \<noteq> Some loggedOut);
               s2 = (if shouldReconnect then setTimeout_connect 3000 s1 else s1)
           in broadcast (s2\<lparr>status := Disconnected, qrCode := None\<rparr>)
         else if upd_connection u = Some ''open'' then
           broadcast (s1\<lparr>status := Connected, qrCode := None\<rparr>)
         else s1)"

section \<open>Session store (part\_001, dbSessionStore.js)\<close>

text \<open>
  The table \<open>whatsapp_sessions\<close>: its rows in insertion order, each by the two columns
  the store reads and writes, \<open>session_id\<close> (declared \<open>UNIQUE\<close>) and \<open>data\<close>. The
  columns \<open>id\<close>, \<open>created_at\<close> and \<open>updated_at\<close> are never read by the code.
\<close>

type_synonym session_table = "(string \<times> string) list"

text \<open>
  \<open>INSERT ... ON DUPLICATE KEY UPDATE data = VALUES(data)\<close>: the row whose unique key
  equals the new one is updated in place; with no such row the new row is inserted.
\<close>

definition insert_on_duplicate_update :: "string \<Rightarrow> string \<Rightarrow> session_table \<Rightarrow> session_table" where
  "insert_on_duplicate_update sessionId js tbl = map_set sessionId js tbl"

text \<open>\<open>SELECT data FROM whatsapp_sessions WHERE session_id = ?\<close>\<close>

definition select_data :: "string \<Rightarrow> session_table \<Rightarrow> string list" where
  "select_data sessionId tbl = map snd (filter (\<lambda>r. fst r = sessionId) tbl)"

text \<open>\<open>DELETE FROM whatsapp_sessions WHERE session_id = ?\<close>\<close>

definition delete_where :: "string \<Rightarrow> session_table \<Rightarrow> session_table" where
  "delete_where sessionId tbl = filter (\<lambda>r. fst r \<noteq> sessionId) tbl"

text \<open>
  The three exported functions. \<open>fault\<close> is the error \<open>db.execute\<close> throws, if it
  does; \<open>stringify\<close> and \<open>parse\<close> are \<open>JSON.stringify\<close> and \<open>JSON.parse\<close>
  (\<open>None\<close> when \<open>JSON.parse\<close> throws).
\<close>

definition saveSession :: "js_error option \<Rightarrow> (json \<Rightarrow> string) \<Rightarrow> string \<Rightarrow> json \<Rightarrow> session_table \<Rightarrow> js_error + session_table" where
  "saveSession fault stringify sessionId data tbl =
     (let js = stringify data
      in case fault of
           Some e \<Rightarrow> Inl e
         | None \<Rightarrow> Inr (insert_on_duplicate_update sessionId js tbl))"

definition getSession :: "js_error option \<Rightarrow> (string \<Rightarrow> json option) \<Rightarrow> string \<Rightarrow> session_table \<Rightarrow> js_error + json option" where
  "getSession fault parse sessionId tbl =
     (case fault of
        Some e \<Rightarrow> Inl e
      | None \<Rightarrow>
          (case select_data sessionId tbl of
             [] \<Rightarrow> Inr None
           | d # ds \<Rightarrow> (case parse d of Some v \<Rightarrow> Inr (Some v) | None \<Rightarrow> Inr None)))"

definition deleteSession :: "js_error option \<Rightarrow> string \<Rightarrow> session_table \<Rightarrow> js_error + session_table" where
  "deleteSession fault sessionId tbl =
     (case fault of Some e \<Rightarrow> Inl e | None \<Rightarrow> Inr (delete_where sessionId tbl))"

section \<open>Credential updates (index.js)\<close>

text \<open>
  The \<open>creds.update\<close> handler of index.js (lines 146-153), an \<open>async\<close> function with
  no \<open>try\<close>. \<open>getAll\<close> is the outcome of \<open>await this.sock.authState.keys.getAll()\<close>,
  \<open>fault\<close> the error of the database call, if any. The result is what the handler's
  promise settles to, with the engine and the table it leaves.
\<close>

definition on_creds_update :: "js_error + json \<Rightarrow> js_error option \<Rightarrow> (json \<Rightarrow> string) \<Rightarrow> engine \<Rightarrow> session_table \<Rightarrow> (js_error + unit) \<times> engine \<times> session_table" where
  "on_creds_update getAll fault stringify s tbl =
     (case sock s of
        None \<Rightarrow> (Inl (Error ''Cannot read properties of null (reading 'authState')''), s, tbl)
      | Some creds \<Rightarrow>
          (case getAll of
             Inl e \<Rightarrow> (Inl e, s, tbl)
           | Inr keys \<Rightarrow>
               let authState = JObj [(''creds'', creds), (''keys'', keys)]
               in case saveSession fault stringify ''default'' authState tbl of
                    Inl e \<Rightarrow> (Inl e, s, tbl)
                  | Inr tbl' \<Rightarrow>
                      (Inr (), console (ConsoleLog ''WhatsApp session updated in DB'' []) s, tbl')))"

section \<open>The credential handler on the event stream (index.js)\<close>

text \<open>
  The \<open>creds.update\<close> handler is an \<open>async\<close> function that line 146 registers with
  \<open>this.sock.ev.on\<close>. An emitter calls a listener and does nothing with the promise an
  \<open>async\<close> listener returns: the handler runs up to its first \<open>await\<close> and returns,
  and each further part runs when the awaited promise settles. The code has no queue,
  lock or flag that would make another handler wait for it.

  A handler that has returned is suspended at one of its two awaits:
  \<open>AwaitGetAll creds\<close> at \<open>await this.sock.authState.keys.getAll()\<close>, having read
  \<open>creds\<close>; \<open>AwaitSave authState\<close> at \<open>await saveSession("default", authState)\<close>,
  the write issued and not yet settled.
\<close>

datatype creds_task = AwaitGetAll json | AwaitSave json

fun awaits_getAll :: "creds_task \<Rightarrow> bool" where
  "awaits_getAll (AwaitGetAll creds) = True"
| "awaits_getAll (AwaitSave authState) = False"

text \<open>
  The engine, the table, the suspended handlers (oldest first) and what the promises of
  the finished handlers settled to.
\<close>

record event_loop =
  lp_engine :: engine
  lp_table :: session_table
  lp_suspended :: "creds_task list"
  lp_settled :: "(js_error + unit) list"

text \<open>
  What can happen next: the stream delivers \<open>creds.update\<close> or
  \<open>connection.update\<close>; the oldest pending \<open>getAll()\<close> settles; the oldest pending
  database write settles (with the error it throws, if any).
\<close>

datatype stream_step =
    CredsUpdate
  | ConnectionUpdate connection_update
  | GetAllSettles "js_error + json"
  | SaveSettles "js_error option"

definition loop_step :: "(json \<Rightarrow> string) \<Rightarrow> (string \<Rightarrow> string) \<Rightarrow> stream_step \<Rightarrow> event_loop \<Rightarrow> event_loop" where
  "loop_step stringify toDataURL a st =
     (case a of
        CredsUpdate \<Rightarrow>
          (case sock (lp_engine st) of
             None \<Rightarrow>
               st\<lparr>lp_settled := lp_settled st @
                    [Inl (Error ''Cannot read properties of null (reading 'authState')'')]\<rparr>
           | Some creds \<Rightarrow> st\<lparr>lp_suspended := lp_suspended st @ [AwaitGetAll creds]\<rparr>)
      | ConnectionUpdate u \<Rightarrow>
          st\<lparr>lp_engine := on_connection_update toDataURL u (lp_engine st)\<rparr>
      | GetAllSettles r \<Rightarrow>
          (case dropWhile (\<lambda>t. \<not> awaits_getAll t) (lp_suspended st) of
             AwaitGetAll creds # after \<Rightarrow>
               (let before = takeWhile (\<lambda>t. \<not> awaits_getAll t) (lp_suspended st)
                in case r of
                     Inl e \<Rightarrow>
                       st\<lparr>lp_suspended := before @ after, lp_settled := lp_settled st @ [Inl e]\<rparr>
                   | Inr keys \<Rightarrow>
                       st\<lparr>lp_suspended :=
                            before @ AwaitSave (JObj [(''creds'', creds), (''keys'', keys)]) # after\<rparr>)
           | _ \<Rightarrow> st)
      | SaveSettles fault \<Rightarrow>
          (case dropWhile awaits_getAll (lp_suspended st) of
             AwaitSave authState # after \<Rightarrow>
               (let before = takeWhile awaits_getAll (lp_suspended st)
                in case saveSession fault stringify ''default'' authState (lp_table st) of
                     Inl e \<Rightarrow>
                       st\<lparr>lp_suspended := before @ after, lp_settled := lp_settled st @ [Inl e]\<rparr>
                   | Inr tbl' \<Rightarrow>
                       st\<lparr>lp_engine :=
                            console (ConsoleLog ''WhatsApp session updated in DB'' []) (lp_engine st),
                          lp_table := tbl', lp_suspended := before @ after,
                          lp_settled := lp_settled st @ [Inr ()]\<rparr>)
           | _ \<Rightarrow> st))"

definition run_loop :: "(json \<Rightarrow> string) \<Rightarrow> (string \<Rightarrow> string) \<Rightarrow> stream_step list \<Rightarrow> event_loop \<Rightarrow> event_loop" where
  "run_loop stringify toDataURL steps st =
     foldl (\<lambda>st a. loop_step stringify toDataURL a st) st steps"

section \<open>Message archive (part\_000)\<close>

text \<open>
  Lines 362-372 of the \<open>messages.upsert\<close> handler: create the peer's array if absent,
  push, and shift once the length exceeds 50.
\<close>

definition messages_push :: "string \<Rightarrow> message_data \<Rightarrow> message_data list js_map \<Rightarrow> message_data list js_map" where
  "messages_push jid d msgs =
     (let cur = (case map_of msgs jid of None \<Rightarrow> [] | Some xs \<Rightarrow> xs);
          pushed = cur @ [d];
          kept = (if length pushed > 50 then tl pushed else pushed)
      in map_set jid kept msgs)"

text \<open>Lines 374-378: the same record is pushed to \<open>this.conversations\<close>, with no bound.\<close>

definition conversations_push :: "string \<Rightarrow> message_data \<Rightarrow> message_data list js_map \<Rightarrow> message_data list js_map" where
  "conversations_push jid d convs =
     (let cur = (case map_of convs jid of None \<Rightarrow> [] | Some xs \<Rightarrow> xs)
      in map_set jid (cur @ [d]) convs)"

text \<open>
  One message of a \<open>messages.upsert\<close> event: \<open>key.remoteJid\<close>, \<open>key.id\<close>,
  \<open>key.fromMe\<close>, \<open>message?.conversation\<close>, \<open>message?.extendedTextMessage?.text\<close>
  and \<open>messageTimestamp\<close>; \<open>None\<close> where the field or a link to it is missing.
\<close>

record wa_message =
  key_remoteJid :: string
  key_id :: string
  key_fromMe :: "bool option"
  m_conversation :: "string option"
  m_extendedText :: "string option"
  m_timestamp :: "int option"

record upsert_event =
  up_messages :: "wa_message list"
  up_type :: string

text \<open>
  \<open>message.message?.conversation || message.message?.extendedTextMessage?.text ||
  "[Media/Other]"\<close>
\<close>

definition message_text :: "wa_message \<Rightarrow> string" where
  "message_text m =
     (if truthy (m_conversation m) then the (m_conversation m)
      else if truthy (m_extendedText m) then the (m_extendedText m)
      else ''[Media/Other]'')"

text \<open>\<open>jid.replace("@s.whatsapp.net", "").replace("@g.us", "")\<close>\<close>

definition strip_suffixes :: "string \<Rightarrow> string" where
  "strip_suffixes jid = replace (replace jid ''@s.whatsapp.net'' []) ''@g.us'' []"

text \<open>The \<open>messageData\<close> object (lines 354-360); \<open>now\<close> is \<open>Date.now()\<close>.\<close>

definition message_data_of :: "int \<Rightarrow> wa_message \<Rightarrow> message_data" where
  "message_data_of now m =
     \<lparr>msg_id = key_id m, msg_from = strip_suffixes (key_remoteJid m), msg_text = message_text m,
      msg_timestamp = (case m_timestamp m of None \<Rightarrow> now | Some t \<Rightarrow> if t = 0 then now else t),
      msg_fromMe = (case key_fromMe m of None \<Rightarrow> False | Some b \<Rightarrow> b)\<rparr>"

definition message_received_data :: "message_data \<Rightarrow> json" where
  "message_received_data d =
     JObj [(''phone_number'', JStr (msg_from d)), (''message_id'', JStr (msg_id d)),
           (''message_content'', JStr (msg_text d)), (''timestamp'', JNum (msg_timestamp d))]"

text \<open>
  The \<open>messages.upsert\<close> handler of part\_000 (lines 341-395). It looks at
  \<open>m.messages[0]\<close> only, and only when \<open>m.type\<close> is \<open>"notify"\<close>.
  \<open>sendWebhook\<close> is called without being awaited; it has run to its end when the call
  returns, before the handler's own log line.
\<close>

definition on_messages_upsert_p0 :: "int \<Rightarrow> http_outcome \<Rightarrow> upsert_event \<Rightarrow> engine \<Rightarrow> engine" where
  "on_messages_upsert_p0 now net ev s =
     (case up_messages ev of
        [] \<Rightarrow> s
      | message # rest \<Rightarrow>
          if up_type ev = ''notify'' then
            let jid = key_remoteJid message;
                messageData = message_data_of now message;
                s1 = s\<lparr>messages := messages_push jid messageData (messages s)\<rparr>;
                s2 = s1\<lparr>conversations := conversations_push jid messageData (conversations s1)\<rparr>;
                s3 = io_emit ''new-message'' (message_json messageData) s2;
                s4 = (if \<not> msg_fromMe messageData
                      then snd (sendWebhook_p0 ''message_received''
                                  (message_received_data messageData) now net s3)
                      else s3)
            in console (ConsoleLog (''New message from '' @ msg_from messageData @ '': '' @
                                     msg_text messageData) []) s4
          else s)"

text \<open>\<open>this.messages.get(jid) || []\<close> (line 193).\<close>

definition stored_messages :: "string \<Rightarrow> message_data list js_map \<Rightarrow> message_data list" where
  "stored_messages jid msgs = (case map_of msgs jid of None \<Rightarrow> [] | Some xs \<Rightarrow> xs)"

text \<open>
  \<open>GET /messages/:number\<close> of part\_000 (lines 170-204). \<open>plimit\<close> is the result of
  \<open>parseInt(req.query.limit)\<close>, \<open>lookup\<close> the outcome of \<open>onWhatsApp\<close>.
\<close>

definition get_messages_p0 :: "string \<Rightarrow> int option \<Rightarrow> lookup_outcome \<Rightarrow> engine \<Rightarrow> response \<times> engine" where
  "get_messages_p0 number plimit lookup s =
     (if status s \<noteq> Connected then ((400, error_body ''WhatsApp not connected''), s)
      else
        let limit = limit_or_default plimit in
        case lookup of
          Inl e \<Rightarrow> ((500, error_body ''Failed to fetch messages''),
                    console (ConsoleError ''Error fetching messages:'' [JStr (error_message e)]) s)
        | Inr results \<Rightarrow>
            (case first_result results of
               None \<Rightarrow> ((400, error_body ''Number not found on WhatsApp''), s)
             | Some r \<Rightarrow>
                 if \<not> lr_exists r then ((400, error_body ''Number not found on WhatsApp''), s)
                 else
                   let jid = lr_jid r;
                       storedMessages = stored_messages jid (messages s)
                   in ((200, JObj [(''success'', JBool True), (''number'', JStr number),
                                   (''messages'',
                                    JArr (map message_json (slice_from (- limit) storedMessages)))]),
                       s)))"

text \<open>One entry of the list \<open>GET /conversations\<close> returns (lines 232-242).\<close>

record conversation =
  conv_id :: string
  conv_number :: string
  conv_name :: string
  conv_isGroup :: bool
  conv_unreadCount :: nat
  conv_lastMessage :: string
  conv_lastMessageTime :: int
  conv_lastMessageFromMe :: bool

definition conversation_json :: "conversation \<Rightarrow> json" where
  "conversation_json c =
     JObj [(''id'', JStr (conv_id c)), (''number'', JStr (conv_number c)),
           (''name'', JStr (conv_name c)), (''isGroup'', JBool (conv_isGroup c)),
           (''unreadCount'', JNum (int (conv_unreadCount c))),
           (''lastMessage'', JStr (conv_lastMessage c)),
           (''lastMessageTime'', JNum (conv_lastMessageTime c)),
           (''lastMessageFromMe'', JBool (conv_lastMessageFromMe c))]"

text \<open>
  The summary of one peer; \<open>lastMessage\<close> is \<open>messages[messages.length - 1]\<close>,
  \<open>undefined\<close> for an empty array.
\<close>

definition conversation_of :: "int \<Rightarrow> string \<Rightarrow> message_data list \<Rightarrow> conversation" where
  "conversation_of now jid msgs =
     (let number = strip_suffixes jid;
          lastMessage = (if msgs = [] then None else Some (last msgs))
      in \<lparr>conv_id = jid, conv_number = number, conv_name = number, conv_isGroup = False,
          conv_unreadCount = 0,
          conv_lastMessage =
            (case lastMessage of None \<Rightarrow> ''No messages''
             | Some d \<Rightarrow> if msg_text d = [] then ''No messages'' else msg_text d),
          conv_lastMessageTime =
            (case lastMessage of None \<Rightarrow> now
             | Some d \<Rightarrow> if msg_timestamp d = 0 then now else msg_timestamp d),
          conv_lastMessageFromMe =
            (case lastMessage of None \<Rightarrow> False | Some d \<Rightarrow> msg_fromMe d)\<rparr>)"

text \<open>
  The loop of \<open>GET /conversations\<close> (lines 218-245) over the entries of
  \<open>this.conversations\<close> in insertion order, with the running \<open>count\<close>.
\<close>

fun listConversations :: "int \<Rightarrow> int \<Rightarrow> int \<Rightarrow> message_data list js_map \<Rightarrow> conversation list" where
  "listConversations now limit count [] = []"
| "listConversations now limit count ((jid, msgs) # rest) =
     (if count \<ge> limit then []
      else
        let isGroup = str_includes jid ''@g.us''
        in if \<not> isGroup
           then conversation_of now jid msgs # listConversations now limit (count + 1) rest
           else listConversations now limit count rest)"

text \<open>\<open>GET /conversations\<close> of part\_000 (lines 207-257).\<close>

definition get_conversations_p0 :: "int option \<Rightarrow> int \<Rightarrow> engine \<Rightarrow> response" where
  "get_conversations_p0 plimit now s =
     (if status s \<noteq> Connected then (400, error_body ''WhatsApp not connected'')
      else
        let limit = limit_or_default plimit
        in (200, JObj [(''success'', JBool True),
                       (''conversations'',
                        JArr (map conversation_json
                                (listConversations now limit 0 (conversations s))))]))"

section \<open>Runs of events, and notions used to state the properties\<close>

text \<open>A sequence of \<open>connection.update\<close> events, handled one after the other.\<close>

definition run_updates :: "(string \<Rightarrow> string) \<Rightarrow> connection_update list \<Rightarrow> engine \<Rightarrow> engine" where
  "run_updates toDataURL us s = foldl (\<lambda>s u. on_connection_update toDataURL u s) s us"

definition run_updates_p0 :: "(string \<Rightarrow> string) \<Rightarrow> connection_update list \<Rightarrow> engine \<Rightarrow> engine" where
  "run_updates_p0 toDataURL us s = foldl (\<lambda>s u. on_connection_update_p0 toDataURL u s) s us"

text \<open>
  A \<open>connection-closed\<close> event whose cause is not an explicit logout: \<open>connection\<close> is
  \<open>"close"\<close> and the status code is not \<open>loggedOut\<close>.
\<close>

definition is_drop :: "connection_update \<Rightarrow> bool" where
  "is_drop u = (upd_connection u = Some ''close'' \<and> upd_statusCode u \<noteq> Some loggedOut)"

text \<open>
  A run of \<open>saveSession\<close> calls, each with its own fault, identifier and blob; a call
  that throws leaves the table as it was.
\<close>

fun run_saves :: "(json \<Rightarrow> string) \<Rightarrow> (js_error option \<times> string \<times> json) list \<Rightarrow> session_table \<Rightarrow> session_table" where
  "run_saves stringify [] tbl = tbl"
| "run_saves stringify ((fault, sessionId, data) # cs) tbl =
     (case saveSession fault stringify sessionId data tbl of
        Inl e \<Rightarrow> run_saves stringify cs tbl
      | Inr tbl' \<Rightarrow> run_saves stringify cs tbl')"

text \<open>Appending a sequence of (peer, record) pairs in arrival order.\<close>

definition append_all :: "(string \<times> message_data) list \<Rightarrow> message_data list js_map \<Rightarrow> message_data list js_map" where
  "append_all evs msgs = foldl (\<lambda>m e. messages_push (fst e) (snd e) m) msgs evs"

text \<open>The records of peer \<open>p\<close> in a sequence of appends, in arrival order.\<close>

definition records_of :: "string \<Rightarrow> (string \<times> message_data) list \<Rightarrow> message_data list" where
  "records_of p evs = map snd (filter (\<lambda>e. fst e = p) evs)"

text \<open>
  The peers of a sequence of appends in the order they were first seen, and the
  \<open>this.conversations\<close> map that the appends build.
\<close>

definition first_seen :: "string list \<Rightarrow> string list" where
  "first_seen jids = rev (remdups (rev jids))"

definition conversations_all :: "(string \<times> message_data) list \<Rightarrow> message_data list js_map \<Rightarrow> message_data list js_map" where
  "conversations_all evs convs = foldl (\<lambda>m e. conversations_push (fst e) (snd e) m) convs evs"

text \<open>
  A failed delivery in the words of the delivery contract: a network failure, or a
  response with a status of 400 or more.
\<close>

fun delivery_failed :: "http_outcome \<Rightarrow> bool" where
  "delivery_failed (NoResponse m) = True"
| "delivery_failed (Responded st txt d) = (st \<ge> 400)"

section \<open>The message archive and recent history\<close>

lemma map_of_map_set: "map_of (map_set k v m) k' = (if k' = k then Some v else map_of m k')"
  by (induction m) auto

lemma messages_push_same:
  "map_of (messages_push p d msgs) p =
     Some (let pushed = (case map_of msgs p of None \<Rightarrow> [] | Some xs \<Rightarrow> xs) @ [d]
           in if length pushed > 50 then tl pushed else pushed)"
  by (simp add: messages_push_def map_of_map_set Let_def)

lemma messages_push_other: "q \<noteq> p \<Longrightarrow> map_of (messages_push p d msgs) q = map_of msgs q"
  by (simp add: messages_push_def map_of_map_set Let_def)

lemma last50_snoc:
  "(let pushed = drop (length rs - 50) rs @ [d] in if length pushed > 50 then tl pushed else pushed)
     = drop (length (rs @ [d]) - 50) (rs @ [d])"
proof (cases "length rs < 50")
  case True
  then show ?thesis by (simp add: Let_def)
next
  case False
  then have n: "50 \<le> length rs" by simp
  have len: "length (drop (length rs - 50) rs) = 50" using n by simp
  have "tl (drop (length rs - 50) rs @ [d]) = tl (drop (length rs - 50) rs) @ [d]"
    using len by (cases "drop (length rs - 50) rs") auto
  also have "tl (drop (length rs - 50) rs) = drop (Suc (length rs - 50)) rs"
    by (simp add: drop_Suc tl_drop)
  also have "Suc (length rs - 50) = length (rs @ [d]) - 50" using n by simp
  finally have "tl (drop (length rs - 50) rs @ [d]) = drop (length (rs @ [d]) - 50) (rs @ [d])"
    using n by simp
  then show ?thesis using len by (simp add: Let_def)
qed

lemma append_all_buffer:
  "map_of (append_all evs []) p =
     (if records_of p evs = [] then None
      else Some (drop (length (records_of p evs) - 50) (records_of p evs)))"
proof (induction evs rule: rev_induct)
  case Nil
  show ?case by (simp add: append_all_def records_of_def)
next
  case (snoc e evs)
  have step: "append_all (evs @ [e]) [] = messages_push (fst e) (snd e) (append_all evs [])"
    by (simp add: append_all_def)
  show ?case
  proof (cases "fst e = p")
    case False
    then have "records_of p (evs @ [e]) = records_of p evs" by (simp add: records_of_def)
    moreover have "map_of (append_all (evs @ [e]) []) p = map_of (append_all evs []) p"
      using False by (simp add: step messages_push_other)
    ultimately show ?thesis using snoc.IH by simp
  next
    case True
    have rs: "records_of p (evs @ [e]) = records_of p evs @ [snd e]"
      using True by (simp add: records_of_def)
    have cur: "(case map_of (append_all evs []) p of None \<Rightarrow> [] | Some xs \<Rightarrow> xs)
                 = drop (length (records_of p evs) - 50) (records_of p evs)"
      using snoc.IH by simp
    have "map_of (append_all (evs @ [e]) []) p =
            Some (drop (length (records_of p evs @ [snd e]) - 50) (records_of p evs @ [snd e]))"
      unfolding step using True messages_push_same [of p "snd e" "append_all evs []"]
      by (simp only: cur last50_snoc)
    then show ?thesis by (simp add: rs)
  qed
qed

lemma stored_messages_append_all:
  "stored_messages p (append_all evs []) = drop (length (records_of p evs) - 50) (records_of p evs)"
  by (simp add: stored_messages_def append_all_buffer)

lemma slice_from_neg:
  "1 \<le> limit \<Longrightarrow> slice_from (- limit) xs = drop (length xs - nat limit) xs"
  by (auto simp: slice_from_def Let_def max_def nat_diff_distrib')

lemma recent_append_all:
  assumes "1 \<le> limit"
  shows "slice_from (- limit) (stored_messages p (append_all evs [])) =
           drop (length (records_of p evs) - min (min (length (records_of p evs)) 50) (nat limit))
             (records_of p evs)"
proof -
  let ?rs = "records_of p evs"
  have "slice_from (- limit) (stored_messages p (append_all evs [])) =
          drop (length (drop (length ?rs - 50) ?rs) - nat limit) (drop (length ?rs - 50) ?rs)"
    using assms by (simp add: slice_from_neg stored_messages_append_all)
  also have "\<dots> = drop (length ?rs - min (min (length ?rs) 50) (nat limit)) ?rs"
    by (auto simp: min_def intro!: arg_cong2[where f=drop])
  finally show ?thesis .
qed

lemma get_messages_p0_ok:
  assumes "status s = Connected" and "first_result results = Some r" and "lr_exists r"
    and "1 \<le> limit"
  shows "get_messages_p0 number (Some limit) (Inr results) s =
           ((200, JObj [(''success'', JBool True), (''number'', JStr number),
                        (''messages'',
                         JArr (map message_json
                                 (slice_from (- limit) (stored_messages (lr_jid r) (messages s)))))]),
            s)"
  using assms by (simp add: get_messages_p0_def limit_or_default_def Let_def)

text \<open>
  Claim C3, as the code has it. For every peer, every sequence of appends starting from
  the empty archive and every limit of at least 1: the peer's buffer holds at most 50
  records, namely the last 50 of the peer's records in arrival order (the oldest are
  dropped first), and \<open>GET /messages/:number\<close> answers with exactly the last
  \<open>min (min N 50) limit\<close> of the peer's \<open>N\<close> records, in arrival order. The bound
  50 also bounds what a larger limit can return.
\<close>

theorem c3_recent_history:
  assumes "status s = Connected" and "first_result results = Some r" and "lr_exists r"
    and "messages s = append_all evs []" and "1 \<le> limit"
  shows "length (stored_messages (lr_jid r) (messages s)) \<le> 50
       \<and> stored_messages (lr_jid r) (messages s)
           = drop (length (records_of (lr_jid r) evs) - 50) (records_of (lr_jid r) evs)
       \<and> get_messages_p0 number (Some limit) (Inr results) s =
           ((200, JObj [(''success'', JBool True), (''number'', JStr number),
                        (''messages'',
                         JArr (map message_json
                           (drop (length (records_of (lr_jid r) evs)
                                    - min (min (length (records_of (lr_jid r) evs)) 50) (nat limit))
                              (records_of (lr_jid r) evs))))]),
            s)"
proof -
  have "get_messages_p0 number (Some limit) (Inr results) s =
          ((200, JObj [(''success'', JBool True), (''number'', JStr number),
                       (''messages'',
                        JArr (map message_json (slice_from (- limit) (stored_messages (lr_jid r) (messages s)))))]),
           s)"
    using assms(1-3,5) by (rule get_messages_p0_ok)
  moreover have "slice_from (- limit) (stored_messages (lr_jid r) (messages s)) =
          drop (length (records_of (lr_jid r) evs)
                  - min (min (length (records_of (lr_jid r) evs)) 50) (nat limit))
            (records_of (lr_jid r) evs)"
    using assms(5) by (simp only: assms(4) recent_append_all)
  moreover have "stored_messages (lr_jid r) (messages s)
           = drop (length (records_of (lr_jid r) evs) - 50) (records_of (lr_jid r) evs)"
    by (simp only: assms(4) stored_messages_append_all)
  moreover have "length (drop (length (records_of (lr_jid r) evs) - 50) (records_of (lr_jid r) evs)) \<le> 50"
    by simp
  ultimately show ?thesis by simp
qed


theorem c3_recent_history_witness:
  "fst (get_messages_p0 ''15550001111'' (Some 1)
     (Inr (Some [\<lparr>lr_exists = True, lr_jid = ''15550001111@s.whatsapp.net''\<rparr>]))
     ((init_engine ''http://localhost:8000/webhook/whatsapp'' False)
        \<lparr>status := Connected,
         messages := append_all
           [(''15550001111@s.whatsapp.net'',
             \<lparr>msg_id = ''A1'', msg_from = ''15550001111'', msg_text = ''hi'',
              msg_timestamp = 100, msg_fromMe = False\<rparr>),
            (''15550001111@s.whatsapp.net'',
             \<lparr>msg_id = ''A2'', msg_from = ''15550001111'', msg_text = ''there'',
              msg_timestamp = 101, msg_fromMe = True\<rparr>)] []\<rparr>))
   = (200, JObj [(''success'', JBool True), (''number'', JStr ''15550001111''),
                 (''messages'',
                  JArr [message_json \<lparr>msg_id = ''A2'', msg_from = ''15550001111'',
                          msg_text = ''there'', msg_timestamp = 101, msg_fromMe = True\<rparr>])])"
  using c3_recent_history
    [of "(init_engine ''http://localhost:8000/webhook/whatsapp'' False)
        \<lparr>status := Connected,
         messages := append_all
           [(''15550001111@s.whatsapp.net'',
             \<lparr>msg_id = ''A1'', msg_from = ''15550001111'', msg_text = ''hi'',
              msg_timestamp = 100, msg_fromMe = False\<rparr>),
            (''15550001111@s.whatsapp.net'',
             \<lparr>msg_id = ''A2'', msg_from = ''15550001111'', msg_text = ''there'',
              msg_timestamp = 101, msg_fromMe = True\<rparr>)] []\<rparr>"
        "Some [\<lparr>lr_exists = True, lr_jid = ''15550001111@s.whatsapp.net''\<rparr>]"
        "\<lparr>lr_exists = True, lr_jid = ''15550001111@s.whatsapp.net''\<rparr>"
        "[(''15550001111@s.whatsapp.net'',
             \<lparr>msg_id = ''A1'', msg_from = ''15550001111'', msg_text = ''hi'',
              msg_timestamp = 100, msg_fromMe = False\<rparr>),
            (''15550001111@s.whatsapp.net'',
             \<lparr>msg_id = ''A2'', msg_from = ''15550001111'', msg_text = ''there'',
              msg_timestamp = 101, msg_fromMe = True\<rparr>)]"
        1 "''15550001111''"]
  by (simp add: records_of_def)

text \<open>
  The claim as stated promises the last \<open>min N limit\<close> records, all \<open>N\<close> when
  \<open>N \<le> limit\<close>. After 51 appends for one peer, \<open>GET /messages/:number\<close> with
  \<open>limit=51\<close> returns 50 records, not 51.
\<close>

lemma records_of_replicate: "records_of p (replicate n (p, d)) = replicate n d"
  by (induction n) (simp_all add: records_of_def)

theorem c3_counterexample:
  "fst (get_messages_p0 ''15550001111'' (Some 51)
     (Inr (Some [\<lparr>lr_exists = True, lr_jid = ''15550001111@s.whatsapp.net''\<rparr>]))
     ((init_engine ''http://localhost:8000/webhook/whatsapp'' False)
        \<lparr>status := Connected,
         messages := append_all
           (replicate 51 (''15550001111@s.whatsapp.net'',
              \<lparr>msg_id = ''A1'', msg_from = ''15550001111'', msg_text = ''hi'',
               msg_timestamp = 100, msg_fromMe = False\<rparr>)) []\<rparr>))
   = (200, JObj [(''success'', JBool True), (''number'', JStr ''15550001111''),
                 (''messages'',
                  JArr (replicate 50
                    (message_json \<lparr>msg_id = ''A1'', msg_from = ''15550001111'',
                       msg_text = ''hi'', msg_timestamp = 100, msg_fromMe = False\<rparr>)))])"
proof -
  have "get_messages_p0 ''15550001111'' (Some 51)
     (Inr (Some [\<lparr>lr_exists = True, lr_jid = ''15550001111@s.whatsapp.net''\<rparr>]))
     ((init_engine ''http://localhost:8000/webhook/whatsapp'' False)
        \<lparr>status := Connected,
         messages := append_all
           (replicate 51 (''15550001111@s.whatsapp.net'',
              \<lparr>msg_id = ''A1'', msg_from = ''15550001111'', msg_text = ''hi'',
               msg_timestamp = 100, msg_fromMe = False\<rparr>)) []\<rparr>)
   = ((200, JObj [(''success'', JBool True), (''number'', JStr ''15550001111''),
                 (''messages'',
                  JArr (map message_json (slice_from (- 51)
                    (stored_messages
                       (lr_jid \<lparr>lr_exists = True, lr_jid = ''15550001111@s.whatsapp.net''\<rparr>)
                       (messages ((init_engine ''http://localhost:8000/webhook/whatsapp'' False)
        \<lparr>status := Connected,
         messages := append_all
           (replicate 51 (''15550001111@s.whatsapp.net'',
              \<lparr>msg_id = ''A1'', msg_from = ''15550001111'', msg_text = ''hi'',
               msg_timestamp = 100, msg_fromMe = False\<rparr>)) []\<rparr>))))))]),
      ((init_engine ''http://localhost:8000/webhook/whatsapp'' False)
        \<lparr>status := Connected,
         messages := append_all
           (replicate 51 (''15550001111@s.whatsapp.net'',
              \<lparr>msg_id = ''A1'', msg_from = ''15550001111'', msg_text = ''hi'',
               msg_timestamp = 100, msg_fromMe = False\<rparr>)) []\<rparr>))"
    by (rule get_messages_p0_ok) (simp_all add: init_engine_def)
  then show ?thesis
    by (simp add: stored_messages_append_all records_of_replicate slice_from_def)
qed

section \<open>The conversation list\<close>

lemma conv_id_conversation_of: "conv_id (conversation_of now jid msgs) = jid"
  by (simp add: conversation_of_def Let_def)

lemma listConversations_ids:
  "map conv_id (listConversations now limit count convs) =
     take (nat (limit - count)) (filter (\<lambda>jid. \<not> str_includes jid ''@g.us'') (map fst convs))"
proof (induction convs arbitrary: count)
  case Nil
  show ?case by simp
next
  case (Cons e convs)
  obtain jid msgs where e: "e = (jid, msgs)" by (cases e)
  show ?case
  proof (cases "count \<ge> limit")
    case True
    then show ?thesis by (simp add: e)
  next
    case False
    then have pos: "nat (limit - count) = Suc (nat (limit - (count + 1)))" by simp
    show ?thesis
    proof (cases "str_includes jid ''@g.us''")
      case True
      then show ?thesis using False Cons.IH [of count] by (simp add: e)
    next
      case g: False
      have "map conv_id (listConversations now limit count (e # convs)) =
              jid # map conv_id (listConversations now limit (count + 1) convs)"
        using False g by (simp add: e conv_id_conversation_of)
      also have "\<dots> = jid # take (nat (limit - (count + 1)))
                           (filter (\<lambda>jid. \<not> str_includes jid ''@g.us'') (map fst convs))"
        by (simp only: Cons.IH)
      also have "\<dots> = take (nat (limit - count))
                           (filter (\<lambda>jid. \<not> str_includes jid ''@g.us'') (map fst (e # convs)))"
        using g by (simp add: e pos)
      finally show ?thesis .
    qed
  qed
qed

lemma keys_map_set:
  "map fst (map_set k v m) = (if k \<in> set (map fst m) then map fst m else map fst m @ [k])"
  by (induction m) force+

lemma first_seen_snoc:
  "first_seen (xs @ [k]) = (if k \<in> set xs then first_seen xs else first_seen xs @ [k])"
  by (simp add: first_seen_def)

lemma set_first_seen: "set (first_seen xs) = set xs"
  by (simp add: first_seen_def)

lemma keys_conversations_all:
  "map fst (conversations_all evs []) = first_seen (map fst evs)"
proof (induction evs rule: rev_induct)
  case Nil
  show ?case by (simp add: conversations_all_def first_seen_def)
next
  case (snoc e evs)
  have "conversations_all (evs @ [e]) [] =
          conversations_push (fst e) (snd e) (conversations_all evs [])"
    by (simp add: conversations_all_def)
  then have "map fst (conversations_all (evs @ [e]) []) =
          (if fst e \<in> set (map fst evs) then first_seen (map fst evs)
           else first_seen (map fst evs) @ [fst e])"
    using snoc.IH by (simp add: conversations_push_def keys_map_set set_first_seen Let_def)
  also have "\<dots> = first_seen (map fst evs @ [fst e])"
    by (simp only: first_seen_snoc)
  finally show ?case by simp
qed

text \<open>
  Claim C8. For every map of known peers and every limit, the list has at most
  \<open>limit\<close> summaries (none for a negative limit), its peers are the first \<open>limit\<close>
  non-group keys of the map in the map's order, and no summary is of a peer whose
  identifier contains \<open>@g.us\<close>. The map built by the message handler holds the peers
  in the order they were first seen. \<open>GET /conversations\<close> answers with that list for
  the limit \<open>parseInt(limit) || 20\<close>.
\<close>

theorem c8_list_conversations:
  "length (listConversations now limit 0 convs) \<le> nat limit
   \<and> map conv_id (listConversations now limit 0 convs) =
       take (nat limit) (filter (\<lambda>jid. \<not> str_includes jid ''@g.us'') (map fst convs))
   \<and> (\<forall>c \<in> set (listConversations now limit 0 convs). \<not> str_includes (conv_id c) ''@g.us'')
   \<and> map conv_id (listConversations now limit 0 (conversations_all evs [])) =
       take (nat limit) (filter (\<lambda>jid. \<not> str_includes jid ''@g.us'') (first_seen (map fst evs)))
   \<and> (status s = Connected \<longrightarrow>
        get_conversations_p0 plimit now s =
          (200, JObj [(''success'', JBool True),
                      (''conversations'',
                       JArr (map conversation_json
                               (listConversations now (limit_or_default plimit) 0
                                  (conversations s))))]))"
proof -
  have route: "status s = Connected \<longrightarrow>
        get_conversations_p0 plimit now s =
          (200, JObj [(''success'', JBool True),
                      (''conversations'',
                       JArr (map conversation_json
                               (listConversations now (limit_or_default plimit) 0
                                  (conversations s))))])"
    by (simp add: get_conversations_p0_def Let_def)
  let ?ids = "\<lambda>m. take (nat limit) (filter (\<lambda>jid. \<not> str_includes jid ''@g.us'') (map fst m))"
  have ids: "map conv_id (listConversations now limit 0 m) = ?ids m" for m
    using listConversations_ids [of now limit 0 m] by simp
  have "length (listConversations now limit 0 convs) = length (?ids convs)"
    using ids [of convs] by (metis length_map)
  then have len: "length (listConversations now limit 0 convs) \<le> nat limit" by simp
  have grp: "\<forall>c \<in> set (listConversations now limit 0 convs). \<not> str_includes (conv_id c) ''@g.us''"
  proof
    fix c assume "c \<in> set (listConversations now limit 0 convs)"
    then have "conv_id c \<in> set (map conv_id (listConversations now limit 0 convs))" by simp
    then have "conv_id c \<in> set (?ids convs)" by (simp only: ids)
    then have "conv_id c \<in> set (filter (\<lambda>jid. \<not> str_includes jid ''@g.us'') (map fst convs))"
      by (rule in_set_takeD)
    then show "\<not> str_includes (conv_id c) ''@g.us''" by simp
  qed
  show ?thesis
    using len grp route ids [of convs] ids [of "conversations_all evs []"]
    by (simp only: keys_conversations_all simp_thms)
qed


theorem c8_list_conversations_witness:
  "length (listConversations 1000 1 0
       [(''120363021111111111@g.us'', []), (''15550000000@s.whatsapp.net'', []), (''15551111111@s.whatsapp.net'', [])]) \<le> nat 1
   \<and> map conv_id (listConversations 1000 1 0
       [(''120363021111111111@g.us'', []), (''15550000000@s.whatsapp.net'', []), (''15551111111@s.whatsapp.net'', [])]) = [''15550000000@s.whatsapp.net'']
   \<and> map conv_id (listConversations 1000 20 0
       [(''120363021111111111@g.us'', []), (''15550000000@s.whatsapp.net'', []), (''15551111111@s.whatsapp.net'', [])]) = [''15550000000@s.whatsapp.net'', ''15551111111@s.whatsapp.net'']
   \<and> status ((init_engine ''http://localhost:8000/webhook/whatsapp'' False)\<lparr>status := Connected, conversations := [(''120363021111111111@g.us'', []), (''15550000000@s.whatsapp.net'', []), (''15551111111@s.whatsapp.net'', [])]\<rparr>) = Connected
   \<and> get_conversations_p0 (Some 1) 1000 ((init_engine ''http://localhost:8000/webhook/whatsapp'' False)\<lparr>status := Connected, conversations := [(''120363021111111111@g.us'', []), (''15550000000@s.whatsapp.net'', []), (''15551111111@s.whatsapp.net'', [])]\<rparr>) =
       (200, JObj [(''success'', JBool True),
                   (''conversations'',
                    JArr [conversation_json
                            (conversation_of 1000 ''15550000000@s.whatsapp.net'' [])])])"
  using c8_list_conversations
    [of 1000 1 "[(''120363021111111111@g.us'', []), (''15550000000@s.whatsapp.net'', []), (''15551111111@s.whatsapp.net'', [])]" "[]" "(init_engine ''http://localhost:8000/webhook/whatsapp'' False)\<lparr>status := Connected, conversations := [(''120363021111111111@g.us'', []), (''15550000000@s.whatsapp.net'', []), (''15551111111@s.whatsapp.net'', [])]\<rparr>" "Some 1"]
    c8_list_conversations
    [of 1000 20 "[(''120363021111111111@g.us'', []), (''15550000000@s.whatsapp.net'', []), (''15551111111@s.whatsapp.net'', [])]" "[]"]
  by (simp add: init_engine_def limit_or_default_def)

section \<open>Webhook delivery\<close>

lemma sendWebhook_try_posts:
  "posts (snd (sendWebhook_try eventType data now net s)) =
     posts s @ [\<lparr>post_url = webhookUrl s, post_body = webhook_envelope eventType now data,
                 post_headers = [(''Content-Type'', ''application/json'')],
                 post_timeout = 8000\<rparr>]"
  by (simp add: sendWebhook_try_def Let_def split: sum.splits)

lemma sendWebhook_try_frame:
  "logs (snd (sendWebhook_try eventType data now net s)) = logs s
   \<and> timers (snd (sendWebhook_try eventType data now net s)) = timers s"
  by (simp add: sendWebhook_try_def Let_def split: sum.splits)

lemma sendWebhook_try_failed:
  "delivery_failed net \<Longrightarrow> \<exists>e. fst (sendWebhook_try eventType data now net s) = Inl e"
  by (cases net) (simp_all add: sendWebhook_try_def Let_def axios_default_validate_def)

lemma sendWebhook_never_throws: "fst (sendWebhook eventType data now net s) = Inr ()"
  by (simp add: sendWebhook_def split: prod.splits sum.splits)

lemma sendWebhook_posts:
  "posts (snd (sendWebhook eventType data now net s)) =
     posts s @ [\<lparr>post_url = webhookUrl s, post_body = webhook_envelope eventType now data,
                 post_headers = [(''Content-Type'', ''application/json'')],
                 post_timeout = 8000\<rparr>]"
proof (cases "sendWebhook_try eventType data now net s")
  case (Pair r s1)
  then have "posts s1 = posts s @ [\<lparr>post_url = webhookUrl s, post_body = webhook_envelope eventType now data,
                 post_headers = [(''Content-Type'', ''application/json'')],
                 post_timeout = 8000\<rparr>]"
    using sendWebhook_try_posts [of eventType data now net s] by simp
  then show ?thesis
    using Pair by (cases r) (simp_all add: sendWebhook_def console_def)
qed

lemma sendWebhook_timers: "timers (snd (sendWebhook eventType data now net s)) = timers s"
proof (cases "sendWebhook_try eventType data now net s")
  case (Pair r s1)
  then have "timers s1 = timers s"
    using sendWebhook_try_frame [of eventType data now net s] by simp
  then show ?thesis
    using Pair by (cases r) (simp_all add: sendWebhook_def console_def)
qed

lemma sendWebhook_failed_logged:
  assumes "delivery_failed net"
  shows "\<exists>m. logs (snd (sendWebhook eventType data now net s)) =
               logs s @ [ConsoleError (''Webhook failed ('' @ eventType @ ''):'') [JStr m]]"
proof (cases "sendWebhook_try eventType data now net s")
  case (Pair r s1)
  then have l: "logs s1 = logs s"
    using sendWebhook_try_frame [of eventType data now net s] by simp
  obtain e where "r = Inl e"
    using sendWebhook_try_failed [OF assms, of eventType data now s] Pair by auto
  then show ?thesis
    using Pair l by (simp add: sendWebhook_def console_def)
qed

lemma sendWebhook_p0_eq:
  "sendWebhook_p0 eventType data now net s =
     (Inr (), console (ConsoleError (''Failed to send webhook: '' @ eventType)
                         [JStr ''require is not defined'']) s)"
  by (simp add: sendWebhook_p0_def sendWebhook_try_p0_def require_axios_def)

lemma sendWebhook_p0_frame:
  "messages (snd (sendWebhook_p0 eventType data now net s)) = messages s
   \<and> conversations (snd (sendWebhook_p0 eventType data now net s)) = conversations s
   \<and> emitted (snd (sendWebhook_p0 eventType data now net s)) = emitted s
   \<and> posts (snd (sendWebhook_p0 eventType data now net s)) = posts s
   \<and> timers (snd (sendWebhook_p0 eventType data now net s)) = timers s"
  by (simp add: sendWebhook_p0_eq console_def)

text \<open>
  Claim C6. \<open>sendWebhook\<close> of index.js does what the claim says: every call issues
  exactly one POST, with a timeout of 8000 ms; its promise always resolves, whatever the
  network does; it schedules nothing (no retry, no queue); and when the delivery fails
  (no response, or a status of 400 or more) the failure is written to the error log.
  \<open>sendWebhook\<close> of part\_000 does not: its \<open>try\<close> block throws at
  \<open>require("axios")\<close>, so every call, whatever the network would do, issues no POST
  at all and only logs the failure; its promise resolves all the same.
\<close>

theorem c6_webhook_delivery:
  "fst (sendWebhook eventType data now net s) = Inr ()
   \<and> posts (snd (sendWebhook eventType data now net s)) =
       posts s @ [\<lparr>post_url = webhookUrl s, post_body = webhook_envelope eventType now data,
                   post_headers = [(''Content-Type'', ''application/json'')],
                   post_timeout = 8000\<rparr>]
   \<and> timers (snd (sendWebhook eventType data now net s)) = timers s
   \<and> (delivery_failed net \<longrightarrow>
        (\<exists>m. logs (snd (sendWebhook eventType data now net s)) =
               logs s @ [ConsoleError (''Webhook failed ('' @ eventType @ ''):'') [JStr m]]))
   \<and> 8000 \<le> post_timeout (last (posts (snd (sendWebhook eventType data now net s))))
   \<and> post_timeout (last (posts (snd (sendWebhook eventType data now net s)))) \<le> 10000
   \<and> fst (sendWebhook_p0 eventType data now net s) = Inr ()
   \<and> posts (snd (sendWebhook_p0 eventType data now net s)) = posts s
   \<and> timers (snd (sendWebhook_p0 eventType data now net s)) = timers s
   \<and> logs (snd (sendWebhook_p0 eventType data now net s)) =
       logs s @ [ConsoleError (''Failed to send webhook: '' @ eventType)
                   [JStr ''require is not defined'']]"
proof -
  have a: "post_timeout (last (posts (snd (sendWebhook eventType data now net s)))) = 8000"
    by (simp add: sendWebhook_posts)
  show ?thesis
    unfolding a
    using sendWebhook_never_throws [of eventType data now net s]
      sendWebhook_posts [of eventType data now net s]
      sendWebhook_timers [of eventType data now net s]
      sendWebhook_failed_logged [of net eventType data now s]
    by (simp add: sendWebhook_p0_eq console_def)
qed

theorem c6_webhook_delivery_witness:
  "delivery_failed (NoResponse ''connect ECONNREFUSED 127.0.0.1:8000'')
   \<and> fst (sendWebhook ''message_sent'' (JObj [(''message_id'', JStr ''ABC123'')]) 1700000000000
          (NoResponse ''connect ECONNREFUSED 127.0.0.1:8000'') (init_engine ''http://localhost:8000/webhook/whatsapp'' False)) = Inr ()
   \<and> length (posts (snd (sendWebhook ''message_sent'' (JObj [(''message_id'', JStr ''ABC123'')]) 1700000000000
          (NoResponse ''connect ECONNREFUSED 127.0.0.1:8000'') (init_engine ''http://localhost:8000/webhook/whatsapp'' False)))) = 1
   \<and> logs (snd (sendWebhook ''message_sent'' (JObj [(''message_id'', JStr ''ABC123'')]) 1700000000000
          (NoResponse ''connect ECONNREFUSED 127.0.0.1:8000'') (init_engine ''http://localhost:8000/webhook/whatsapp'' False))) =
       [ConsoleError ''Webhook failed (message_sent):''
          [JStr ''connect ECONNREFUSED 127.0.0.1:8000'']]
   \<and> map post_timeout (posts (snd (sendWebhook ''message_sent'' (JObj [(''message_id'', JStr ''ABC123'')]) 1700000000000
          (Responded 200 ''OK'' JNull) (init_engine ''http://localhost:8000/webhook/whatsapp'' False)))) = [8000]
   \<and> logs (snd (sendWebhook ''message_sent'' (JObj [(''message_id'', JStr ''ABC123'')]) 1700000000000
          (Responded 200 ''OK'' JNull) (init_engine ''http://localhost:8000/webhook/whatsapp'' False))) = []
   \<and> fst (sendWebhook_p0 ''message_sent'' (JObj [(''message_id'', JStr ''ABC123'')]) 1700000000000 (Responded 200 ''OK'' JNull) (init_engine ''http://localhost:8000/webhook/whatsapp'' False)) = Inr ()
   \<and> posts (snd (sendWebhook_p0 ''message_sent'' (JObj [(''message_id'', JStr ''ABC123'')]) 1700000000000
          (Responded 200 ''OK'' JNull) (init_engine ''http://localhost:8000/webhook/whatsapp'' False))) = []
   \<and> logs (snd (sendWebhook_p0 ''message_sent'' (JObj [(''message_id'', JStr ''ABC123'')]) 1700000000000
          (Responded 200 ''OK'' JNull) (init_engine ''http://localhost:8000/webhook/whatsapp'' False))) =
       [ConsoleError ''Failed to send webhook: message_sent'' [JStr ''require is not defined'']]"
  using c6_webhook_delivery
    [of "''message_sent''" "JObj [(''message_id'', JStr ''ABC123'')]" 1700000000000
        "NoResponse ''connect ECONNREFUSED 127.0.0.1:8000''" "init_engine ''http://localhost:8000/webhook/whatsapp'' False"]
    c6_webhook_delivery
    [of "''message_sent''" "JObj [(''message_id'', JStr ''ABC123'')]" 1700000000000 "Responded 200 ''OK'' JNull" "init_engine ''http://localhost:8000/webhook/whatsapp'' False"]
  by (simp add: init_engine_def sendWebhook_def sendWebhook_try_def console_def
        webhook_envelope_def axios_default_validate_def Let_def)

section \<open>The send route\<close>

lemma post_send_rejects:
  "status s \<noteq> Connected \<or> \<not> truthy number \<or> \<not> truthy message \<Longrightarrow>
     fst (fst (post_send number message lookup sent now net s)) = 400
     \<and> snd (post_send number message lookup sent now net s) = s"
  by (auto simp: post_send_def)

lemma post_send_invalid_peer:
  assumes "status s = Connected" and "truthy number" and "truthy message"
    and "first_result results = None \<or> (\<exists>r. first_result results = Some r \<and> \<not> lr_exists r)"
  shows "post_send number message (Inr results) sent now net s =
           ((400, error_body ''Invalid number''), s)"
  using assms by (auto simp: post_send_def)

lemma post_send_ok:
  assumes "status s = Connected" and "truthy number" and "truthy message"
    and "first_result results = Some r" and "lr_exists r"
  shows "fst (post_send number message (Inr results) (Inr mid) now net s) =
           (200, JObj [(''success'', JBool True), (''messageId'', JStr mid)])
       \<and> posts (snd (post_send number message (Inr results) (Inr mid) now net s)) =
           posts s @ [\<lparr>post_url = webhookUrl s,
                       post_body = webhook_envelope ''message_sent'' now
                         (message_sent_data (the number) mid (the message) now),
                       post_headers = [(''Content-Type'', ''application/json'')],
                       post_timeout = 8000\<rparr>]"
proof -
  let ?w = "sendWebhook ''message_sent'' (message_sent_data (the number) mid (the message) now) now net s"
  obtain u s1 where w: "?w = (u, s1)" by (cases ?w)
  have u: "u = Inr ()" using sendWebhook_never_throws [of "''message_sent''" _ now net s] w
    by (metis fst_conv)
  have p: "posts s1 = posts s @ [\<lparr>post_url = webhookUrl s,
                       post_body = webhook_envelope ''message_sent'' now
                         (message_sent_data (the number) mid (the message) now),
                       post_headers = [(''Content-Type'', ''application/json'')],
                       post_timeout = 8000\<rparr>]"
    using sendWebhook_posts [of "''message_sent''" "message_sent_data (the number) mid (the message) now" now net s] w
    by simp
  have "post_send number message (Inr results) (Inr mid) now net s =
          ((200, JObj [(''success'', JBool True), (''messageId'', JStr mid)]), s1)"
    using assms w u by (simp add: post_send_def)
  then show ?thesis using p by simp
qed

lemma post_send_p0_rejects:
  "status s \<noteq> Connected \<or> \<not> truthy number \<or> \<not> truthy message \<Longrightarrow>
     fst (fst (post_send_p0 number message lookup sent now net s)) = 400
     \<and> snd (post_send_p0 number message lookup sent now net s) = s"
  by (auto simp: post_send_p0_def)

lemma post_send_p0_invalid_peer:
  assumes "status s = Connected" and "truthy number" and "truthy message"
    and "first_result results = None \<or> (\<exists>r. first_result results = Some r \<and> \<not> lr_exists r)"
  shows "fst (fst (post_send_p0 number message (Inr results) sent now net s)) = 400
       \<and> snd (post_send_p0 number message (Inr results) sent now net s) = s"
  using assms by (auto simp: post_send_p0_def)

lemma post_send_p0_ok:
  assumes "status s = Connected" and "truthy number" and "truthy message"
    and "first_result results = Some r" and "lr_exists r"
  shows "post_send_p0 number message (Inr results) (Inr mid) now net s =
           ((200, JObj [(''success'', JBool True), (''message'', JStr ''Message sent successfully''),
                        (''messageId'', JStr mid)]),
            console (ConsoleError ''Failed to send webhook: message_sent''
                       [JStr ''require is not defined'']) s)"
  using assms by (simp add: post_send_p0_def sendWebhook_p0_eq Let_def)

text \<open>
  Claim C4. For \<open>POST /send\<close> of index.js: when the engine is not connected or a
  required field is missing or empty, the answer is 400 and nothing else happens; when
  the lookup returns nothing, or its first entry says the number does not exist, the
  answer is 400 and no webhook is posted; when the lookup succeeds and the send returns a
  message id, the answer is 200 with that id, and exactly one webhook is posted, a
  \<open>message_sent\<close> event carrying the same id. \<open>POST /send\<close> of part\_000 gives
  the same statuses and the same id, but after a successful send no webhook is posted:
  its \<open>sendWebhook\<close> fails at \<open>require("axios")\<close> and only logs the failure.
\<close>

theorem c4_send_route:
  "(status s \<noteq> Connected \<or> \<not> truthy number \<or> \<not> truthy message \<longrightarrow>
      fst (fst (post_send number message lookup sent now net s)) = 400
      \<and> snd (post_send number message lookup sent now net s) = s
      \<and> fst (fst (post_send_p0 number message lookup sent now net s)) = 400
      \<and> snd (post_send_p0 number message lookup sent now net s) = s)
   \<and> (status s = Connected \<and> truthy number \<and> truthy message
       \<and> (first_result results = None \<or> (\<exists>r. first_result results = Some r \<and> \<not> lr_exists r)) \<longrightarrow>
      post_send number message (Inr results) sent now net s =
        ((400, error_body ''Invalid number''), s)
      \<and> fst (fst (post_send_p0 number message (Inr results) sent now net s)) = 400
      \<and> snd (post_send_p0 number message (Inr results) sent now net s) = s)
   \<and> (status s = Connected \<and> truthy number \<and> truthy message
       \<and> first_result results = Some r \<and> lr_exists r \<longrightarrow>
      fst (post_send number message (Inr results) (Inr mid) now net s) =
        (200, JObj [(''success'', JBool True), (''messageId'', JStr mid)])
      \<and> posts (snd (post_send number message (Inr results) (Inr mid) now net s)) =
          posts s @ [\<lparr>post_url = webhookUrl s,
                      post_body = webhook_envelope ''message_sent'' now
                        (message_sent_data (the number) mid (the message) now),
                      post_headers = [(''Content-Type'', ''application/json'')],
                      post_timeout = 8000\<rparr>]
      \<and> fst (post_send_p0 number message (Inr results) (Inr mid) now net s) =
          (200, JObj [(''success'', JBool True), (''message'', JStr ''Message sent successfully''),
                      (''messageId'', JStr mid)])
      \<and> posts (snd (post_send_p0 number message (Inr results) (Inr mid) now net s)) = posts s
      \<and> logs (snd (post_send_p0 number message (Inr results) (Inr mid) now net s)) =
          logs s @ [ConsoleError ''Failed to send webhook: message_sent''
                      [JStr ''require is not defined'']])"
proof (intro conjI impI)
  assume a: "status s \<noteq> Connected \<or> \<not> truthy number \<or> \<not> truthy message"
  show "fst (fst (post_send number message lookup sent now net s)) = 400"
    and "snd (post_send number message lookup sent now net s) = s"
    using post_send_rejects [OF a] by simp_all
  show "fst (fst (post_send_p0 number message lookup sent now net s)) = 400"
    and "snd (post_send_p0 number message lookup sent now net s) = s"
    using post_send_p0_rejects [OF a] by simp_all
next
  assume a: "status s = Connected \<and> truthy number \<and> truthy message
       \<and> (first_result results = None \<or> (\<exists>r. first_result results = Some r \<and> \<not> lr_exists r))"
  show "post_send number message (Inr results) sent now net s =
        ((400, error_body ''Invalid number''), s)"
    using a post_send_invalid_peer by blast
  show "fst (fst (post_send_p0 number message (Inr results) sent now net s)) = 400"
    and "snd (post_send_p0 number message (Inr results) sent now net s) = s"
    using a post_send_p0_invalid_peer [of s number message results sent now net] by simp_all
next
  assume a: "status s = Connected \<and> truthy number \<and> truthy message
       \<and> first_result results = Some r \<and> lr_exists r"
  show "fst (post_send number message (Inr results) (Inr mid) now net s) =
        (200, JObj [(''success'', JBool True), (''messageId'', JStr mid)])"
    and "posts (snd (post_send number message (Inr results) (Inr mid) now net s)) =
          posts s @ [\<lparr>post_url = webhookUrl s,
                      post_body = webhook_envelope ''message_sent'' now
                        (message_sent_data (the number) mid (the message) now),
                      post_headers = [(''Content-Type'', ''application/json'')],
                      post_timeout = 8000\<rparr>]"
    using a post_send_ok [of s number message results r mid now net] by simp_all
  show "fst (post_send_p0 number message (Inr results) (Inr mid) now net s) =
          (200, JObj [(''success'', JBool True), (''message'', JStr ''Message sent successfully''),
                      (''messageId'', JStr mid)])"
    and "posts (snd (post_send_p0 number message (Inr results) (Inr mid) now net s)) = posts s"
    and "logs (snd (post_send_p0 number message (Inr results) (Inr mid) now net s)) =
          logs s @ [ConsoleError ''Failed to send webhook: message_sent''
                      [JStr ''require is not defined'']]"
    using a post_send_p0_ok [of s number message results r mid now net]
    by (simp_all add: console_def)
qed


theorem c4_send_route_witness:
  "fst (fst (post_send (Some ''15551234567'') (Some ''hi'') (Inr (Some [\<lparr>lr_exists = False, lr_jid = ''15551234567@s.whatsapp.net''\<rparr>])) (Inr ''ABC123'') 1700000000000 (Responded 200 ''OK'' JNull) (init_engine ''http://localhost:8000/webhook/whatsapp'' False))) = 400
   \<and> fst (fst (post_send_p0 (Some ''15551234567'') (Some ''hi'') (Inr (Some [\<lparr>lr_exists = False, lr_jid = ''15551234567@s.whatsapp.net''\<rparr>])) (Inr ''ABC123'') 1700000000000 (Responded 200 ''OK'' JNull) (init_engine ''http://localhost:8000/webhook/whatsapp'' False))) = 400
   \<and> fst (post_send (Some ''15551234567'') (Some ''hi'') (Inr (Some [\<lparr>lr_exists = False, lr_jid = ''15551234567@s.whatsapp.net''\<rparr>])) (Inr ''ABC123'') 1700000000000 (Responded 200 ''OK'' JNull) ((init_engine ''http://localhost:8000/webhook/whatsapp'' False)\<lparr>sock := Some JNull, status := Connected\<rparr>)) = (400, error_body ''Invalid number'')
   \<and> posts (snd (post_send (Some ''15551234567'') (Some ''hi'') (Inr (Some [\<lparr>lr_exists = False, lr_jid = ''15551234567@s.whatsapp.net''\<rparr>])) (Inr ''ABC123'') 1700000000000 (Responded 200 ''OK'' JNull) ((init_engine ''http://localhost:8000/webhook/whatsapp'' False)\<lparr>sock := Some JNull, status := Connected\<rparr>))) = []
   \<and> fst (fst (post_send_p0 (Some ''15551234567'') (Some ''hi'') (Inr (Some [\<lparr>lr_exists = False, lr_jid = ''15551234567@s.whatsapp.net''\<rparr>])) (Inr ''ABC123'') 1700000000000 (Responded 200 ''OK'' JNull) ((init_engine ''http://localhost:8000/webhook/whatsapp'' False)\<lparr>sock := Some JNull, status := Connected\<rparr>))) = 400
   \<and> posts (snd (post_send_p0 (Some ''15551234567'') (Some ''hi'') (Inr (Some [\<lparr>lr_exists = False, lr_jid = ''15551234567@s.whatsapp.net''\<rparr>])) (Inr ''ABC123'') 1700000000000 (Responded 200 ''OK'' JNull) ((init_engine ''http://localhost:8000/webhook/whatsapp'' False)\<lparr>sock := Some JNull, status := Connected\<rparr>))) = []
   \<and> fst (post_send (Some ''15551234567'') (Some ''hi'') (Inr (Some [\<lparr>lr_exists = True, lr_jid = ''15551234567@s.whatsapp.net''\<rparr>])) (Inr ''ABC123'') 1700000000000 (Responded 200 ''OK'' JNull) ((init_engine ''http://localhost:8000/webhook/whatsapp'' False)\<lparr>sock := Some JNull, status := Connected\<rparr>)) =
        (200, JObj [(''success'', JBool True), (''messageId'', JStr ''ABC123'')])
   \<and> map post_body (posts (snd (post_send (Some ''15551234567'') (Some ''hi'') (Inr (Some [\<lparr>lr_exists = True, lr_jid = ''15551234567@s.whatsapp.net''\<rparr>])) (Inr ''ABC123'') 1700000000000 (Responded 200 ''OK'' JNull) ((init_engine ''http://localhost:8000/webhook/whatsapp'' False)\<lparr>sock := Some JNull, status := Connected\<rparr>)))) =
        [JObj [(''event_type'', JStr ''message_sent''), (''timestamp'', JNum 1700000000000),
               (''data'', JObj [(''phone_number'', JStr ''15551234567''),
                                (''message_id'', JStr ''ABC123''),
                                (''message_content'', JStr ''hi''),
                                (''timestamp'', JNum 1700000000000)])]]
   \<and> fst (fst (post_send_p0 (Some ''15551234567'') (Some ''hi'') (Inr (Some [\<lparr>lr_exists = True, lr_jid = ''15551234567@s.whatsapp.net''\<rparr>])) (Inr ''ABC123'') 1700000000000 (Responded 200 ''OK'' JNull) ((init_engine ''http://localhost:8000/webhook/whatsapp'' False)\<lparr>sock := Some JNull, status := Connected\<rparr>))) = 200
   \<and> posts (snd (post_send_p0 (Some ''15551234567'') (Some ''hi'') (Inr (Some [\<lparr>lr_exists = True, lr_jid = ''15551234567@s.whatsapp.net''\<rparr>])) (Inr ''ABC123'') 1700000000000 (Responded 200 ''OK'' JNull) ((init_engine ''http://localhost:8000/webhook/whatsapp'' False)\<lparr>sock := Some JNull, status := Connected\<rparr>))) = []
   \<and> logs (snd (post_send_p0 (Some ''15551234567'') (Some ''hi'') (Inr (Some [\<lparr>lr_exists = True, lr_jid = ''15551234567@s.whatsapp.net''\<rparr>])) (Inr ''ABC123'') 1700000000000 (Responded 200 ''OK'' JNull) ((init_engine ''http://localhost:8000/webhook/whatsapp'' False)\<lparr>sock := Some JNull, status := Connected\<rparr>))) =
        [ConsoleError ''Failed to send webhook: message_sent'' [JStr ''require is not defined'']]"
  using c4_send_route
    [of "init_engine ''http://localhost:8000/webhook/whatsapp'' False" "Some ''15551234567''" "Some ''hi''"
        "Inr (Some [\<lparr>lr_exists = False, lr_jid = ''15551234567@s.whatsapp.net''\<rparr>])" "Inr ''ABC123''" 1700000000000 "Responded 200 ''OK'' JNull"]
    c4_send_route
    [of "(init_engine ''http://localhost:8000/webhook/whatsapp'' False)\<lparr>sock := Some JNull, status := Connected\<rparr>" "Some ''15551234567''" "Some ''hi''"
        _ "Inr ''ABC123''" 1700000000000 "Responded 200 ''OK'' JNull"
        "Some [\<lparr>lr_exists = False, lr_jid = ''15551234567@s.whatsapp.net''\<rparr>]"]
    c4_send_route
    [of "(init_engine ''http://localhost:8000/webhook/whatsapp'' False)\<lparr>sock := Some JNull, status := Connected\<rparr>" "Some ''15551234567''" "Some ''hi''"
        _ _ 1700000000000 "Responded 200 ''OK'' JNull"
        "Some [\<lparr>lr_exists = True, lr_jid = ''15551234567@s.whatsapp.net''\<rparr>]"
        "\<lparr>lr_exists = True, lr_jid = ''15551234567@s.whatsapp.net''\<rparr>" "''ABC123''"]
  by (simp add: init_engine_def webhook_envelope_def message_sent_data_def)

section \<open>The check route\<close>

text \<open>
  Claim C10. For \<open>GET /check/:number\<close> while the engine is connected: a lookup that
  returns \<open>undefined\<close> or an empty array is answered with status 200 and the body
  \<open>{exists: false, message: "Invalid number format"}\<close>; the answer is 500 exactly when
  the lookup throws, and 200 otherwise.
\<close>

theorem c10_check_route:
  assumes "status s = Connected"
  shows "get_check_p0 number (Inr None) s =
           (200, JObj [(''exists'', JBool False), (''message'', JStr ''Invalid number format'')])
       \<and> get_check_p0 number (Inr (Some [])) s =
           (200, JObj [(''exists'', JBool False), (''message'', JStr ''Invalid number format'')])
       \<and> (fst (get_check_p0 number lookup s) = 500) = (\<exists>e. lookup = Inl e)
       \<and> (fst (get_check_p0 number lookup s) = 200) = (\<exists>results. lookup = Inr results)"
  using assms
  by (cases lookup) (auto simp: get_check_p0_def split: option.splits)

theorem c10_check_route_witness:
  "status ((init_engine ''http://localhost:8000/webhook/whatsapp'' False)\<lparr>sock := Some JNull, status := Connected\<rparr>) = Connected
   \<and> get_check_p0 ''abc'' (Inr (Some [])) ((init_engine ''http://localhost:8000/webhook/whatsapp'' False)\<lparr>sock := Some JNull, status := Connected\<rparr>) =
       (200, JObj [(''exists'', JBool False), (''message'', JStr ''Invalid number format'')])
   \<and> fst (get_check_p0 ''abc'' (Inl (Error ''Connection Closed'')) ((init_engine ''http://localhost:8000/webhook/whatsapp'' False)\<lparr>sock := Some JNull, status := Connected\<rparr>)) = 500
   \<and> fst (get_check_p0 ''15551234567''
             (Inr (Some [\<lparr>lr_exists = False, lr_jid = ''15551234567@s.whatsapp.net''\<rparr>])) ((init_engine ''http://localhost:8000/webhook/whatsapp'' False)\<lparr>sock := Some JNull, status := Connected\<rparr>)) = 200"
proof -
  have h: "status ((init_engine ''http://localhost:8000/webhook/whatsapp'' False)\<lparr>sock := Some JNull, status := Connected\<rparr>) = Connected"
    by (simp add: init_engine_def)
  show ?thesis
    using h c10_check_route [OF h, of "''abc''" "Inl (Error ''Connection Closed'')"]
      c10_check_route [OF h, of "''15551234567''"
        "Inr (Some [\<lparr>lr_exists = False, lr_jid = ''15551234567@s.whatsapp.net''\<rparr>])"]
    by simp
qed

section \<open>The disconnect route\<close>

text \<open>
  Claim C7 on index.js. A disconnect request that arrives while the engine is connected,
  with a logout that succeeds, logs out and clears the in-memory state (no socket, no QR
  code, status disconnected, both broadcast), and there it stops: no timer is scheduled,
  so \<open>connect\<close> is not called again. The handler of part\_000 schedules
  \<open>connect\<close> after one second at the same point.
\<close>

theorem c7_disconnect_index_js:
  assumes "sock s \<noteq> None" and "status s = Connected"
  shows "fst (post_disconnect (Inr ()) s) =
           (200, JObj [(''success'', JBool True), (''message'', JStr ''Disconnected'')])
       \<and> sock (snd (post_disconnect (Inr ()) s)) = None
       \<and> qrCode (snd (post_disconnect (Inr ()) s)) = None
       \<and> status (snd (post_disconnect (Inr ()) s)) = Disconnected
       \<and> emitted (snd (post_disconnect (Inr ()) s)) =
           emitted s @ [(''status'', JStr ''disconnected''), (''qr'', JNull)]
       \<and> timers (snd (post_disconnect (Inr ()) s)) = timers s
       \<and> timers (snd (post_disconnect_p0 (Inr ()) s)) = timers s @ [1000]"
  using assms
  by (simp add: post_disconnect_def post_disconnect_p0_def cleanup_def cleanup_p0_def
        broadcast_def io_emit_def setTimeout_connect_def Let_def)

theorem c7_disconnect_index_js_witness:
  "sock ((init_engine ''http://localhost:8000/webhook/whatsapp'' False)\<lparr>sock := Some JNull, status := Connected\<rparr>) \<noteq> None \<and> status ((init_engine ''http://localhost:8000/webhook/whatsapp'' False)\<lparr>sock := Some JNull, status := Connected\<rparr>) = Connected
   \<and> timers (snd (post_disconnect (Inr ()) ((init_engine ''http://localhost:8000/webhook/whatsapp'' False)\<lparr>sock := Some JNull, status := Connected\<rparr>))) = []
   \<and> status (snd (post_disconnect (Inr ()) ((init_engine ''http://localhost:8000/webhook/whatsapp'' False)\<lparr>sock := Some JNull, status := Connected\<rparr>))) = Disconnected
   \<and> sock (snd (post_disconnect (Inr ()) ((init_engine ''http://localhost:8000/webhook/whatsapp'' False)\<lparr>sock := Some JNull, status := Connected\<rparr>))) = None
   \<and> timers (snd (post_disconnect_p0 (Inr ()) ((init_engine ''http://localhost:8000/webhook/whatsapp'' False)\<lparr>sock := Some JNull, status := Connected\<rparr>))) = [1000]"
proof -
  have h1: "sock ((init_engine ''http://localhost:8000/webhook/whatsapp'' False)\<lparr>sock := Some JNull, status := Connected\<rparr>) \<noteq> None"
    and h2: "status ((init_engine ''http://localhost:8000/webhook/whatsapp'' False)\<lparr>sock := Some JNull, status := Connected\<rparr>) = Connected"
    by (simp_all add: init_engine_def)
  show ?thesis
    using h1 h2 c7_disconnect_index_js [OF h1 h2]
    by (simp add: init_engine_def)
qed

section \<open>Reconnection timers\<close>

lemma broadcast_timers: "timers (broadcast s) = timers s"
  by (simp add: broadcast_def io_emit_def)

lemma on_connection_update_drop:
  "is_drop u \<Longrightarrow> timers (on_connection_update toDataURL u s) = timers s @ [3000]"
  by (simp add: is_drop_def on_connection_update_def broadcast_timers setTimeout_connect_def
        Let_def)

lemma on_connection_update_p0_drop:
  "is_drop u \<Longrightarrow> timers (on_connection_update_p0 toDataURL u s) = timers s @ [3000]"
  by (simp add: is_drop_def on_connection_update_p0_def broadcast_timers setTimeout_connect_def
        Let_def)

lemma on_connection_update_logout:
  "upd_connection u = Some ''close'' \<Longrightarrow> upd_statusCode u = Some loggedOut \<Longrightarrow>
     timers (on_connection_update toDataURL u s) = timers s
     \<and> timers (on_connection_update_p0 toDataURL u s) = timers s"
  by (simp add: on_connection_update_def on_connection_update_p0_def broadcast_timers Let_def)

lemma run_updates_drops:
  "\<forall>u \<in> set us. is_drop u \<Longrightarrow>
     timers (run_updates toDataURL us s) = timers s @ replicate (length us) 3000"
proof (induction us rule: rev_induct)
  case Nil
  show ?case by (simp add: run_updates_def)
next
  case (snoc u us)
  have "run_updates toDataURL (us @ [u]) s =
          on_connection_update toDataURL u (run_updates toDataURL us s)"
    by (simp add: run_updates_def)
  then show ?case
    using snoc by (simp add: on_connection_update_drop replicate_append_same)
qed

lemma run_updates_p0_drops:
  "\<forall>u \<in> set us. is_drop u \<Longrightarrow>
     timers (run_updates_p0 toDataURL us s) = timers s @ replicate (length us) 3000"
proof (induction us rule: rev_induct)
  case Nil
  show ?case by (simp add: run_updates_p0_def)
next
  case (snoc u us)
  have "run_updates_p0 toDataURL (us @ [u]) s =
          on_connection_update_p0 toDataURL u (run_updates_p0 toDataURL us s)"
    by (simp add: run_updates_p0_def)
  then show ?case
    using snoc by (simp add: on_connection_update_p0_drop replicate_append_same)
qed

text \<open>
  Claim C1, as the code has it. Every \<open>connection-closed\<close> event whose cause is not an
  explicit logout schedules one call of \<open>connect\<close> 3000 ms later, whether or not a
  timer is already pending: after \<open>n\<close> such events in succession, \<open>n\<close> more timers
  are pending. A \<open>connection-closed\<close> event caused by a logout schedules none. Both
  files agree.
\<close>

theorem c1_one_timer_per_event:
  "((\<forall>u \<in> set us. is_drop u) \<longrightarrow>
      timers (run_updates toDataURL us s) = timers s @ replicate (length us) 3000
      \<and> timers (run_updates_p0 toDataURL us s) = timers s @ replicate (length us) 3000)
   \<and> (upd_connection u = Some ''close'' \<and> upd_statusCode u = Some loggedOut \<longrightarrow>
      timers (on_connection_update toDataURL u s) = timers s
      \<and> timers (on_connection_update_p0 toDataURL u s) = timers s)"
  using run_updates_drops [of us toDataURL s] run_updates_p0_drops [of us toDataURL s]
    on_connection_update_logout [of u toDataURL s]
  by blast

theorem c1_one_timer_per_event_witness:
  "is_drop \<lparr>upd_connection = Some ''close'', upd_statusCode = Some 428, upd_qr = None\<rparr>
   \<and> timers (run_updates (\<lambda>q. q) [\<lparr>upd_connection = Some ''close'', upd_statusCode = Some 428, upd_qr = None\<rparr>, \<lparr>upd_connection = Some ''close'', upd_statusCode = Some 428, upd_qr = None\<rparr>, \<lparr>upd_connection = Some ''close'', upd_statusCode = Some 428, upd_qr = None\<rparr>] (init_engine ''http://localhost:8000/webhook/whatsapp'' False)) = [3000, 3000, 3000]
   \<and> timers (run_updates_p0 (\<lambda>q. q) [\<lparr>upd_connection = Some ''close'', upd_statusCode = Some 428, upd_qr = None\<rparr>, \<lparr>upd_connection = Some ''close'', upd_statusCode = Some 428, upd_qr = None\<rparr>, \<lparr>upd_connection = Some ''close'', upd_statusCode = Some 428, upd_qr = None\<rparr>] (init_engine ''http://localhost:8000/webhook/whatsapp'' False)) = [3000, 3000, 3000]
   \<and> timers (on_connection_update (\<lambda>q. q)
        \<lparr>upd_connection = Some ''close'', upd_statusCode = Some 401, upd_qr = None\<rparr> (init_engine ''http://localhost:8000/webhook/whatsapp'' False)) = []"
proof -
  have h: "\<forall>u \<in> set [\<lparr>upd_connection = Some ''close'', upd_statusCode = Some 428, upd_qr = None\<rparr>, \<lparr>upd_connection = Some ''close'', upd_statusCode = Some 428, upd_qr = None\<rparr>, \<lparr>upd_connection = Some ''close'', upd_statusCode = Some 428, upd_qr = None\<rparr>]. is_drop u"
    by (simp add: is_drop_def loggedOut_def)
  have t: "timers (init_engine ''http://localhost:8000/webhook/whatsapp'' False) = []"
    by (simp add: init_engine_def)
  have l: "upd_connection \<lparr>upd_connection = Some ''close'', upd_statusCode = Some 401, upd_qr = None\<rparr> = Some ''close''
           \<and> upd_statusCode \<lparr>upd_connection = Some ''close'', upd_statusCode = Some 401, upd_qr = None\<rparr> = Some loggedOut"
    by (simp add: loggedOut_def)
  show ?thesis
    using h t l
      c1_one_timer_per_event [of "[\<lparr>upd_connection = Some ''close'', upd_statusCode = Some 428, upd_qr = None\<rparr>, \<lparr>upd_connection = Some ''close'', upd_statusCode = Some 428, upd_qr = None\<rparr>, \<lparr>upd_connection = Some ''close'', upd_statusCode = Some 428, upd_qr = None\<rparr>]" "\<lambda>q. q" "init_engine ''http://localhost:8000/webhook/whatsapp'' False"
        "\<lparr>upd_connection = Some ''close'', upd_statusCode = Some 401, upd_qr = None\<rparr>"]
    by (simp add: numeral_3_eq_3)
qed

text \<open>
  The claim as stated allows at most one pending timer, also when the event is delivered
  twice in succession. Two \<open>connection-closed\<close> events with status code 428
  (connection closed, not a logout), delivered to a fresh engine, leave two timers
  pending, in either file.
\<close>

theorem c1_counterexample:
  "is_drop \<lparr>upd_connection = Some ''close'', upd_statusCode = Some 428, upd_qr = None\<rparr>
   \<and> timers (run_updates (\<lambda>q. q) [\<lparr>upd_connection = Some ''close'', upd_statusCode = Some 428, upd_qr = None\<rparr>, \<lparr>upd_connection = Some ''close'', upd_statusCode = Some 428, upd_qr = None\<rparr>] (init_engine ''http://localhost:8000/webhook/whatsapp'' False)) = [3000, 3000]
   \<and> timers (run_updates_p0 (\<lambda>q. q) [\<lparr>upd_connection = Some ''close'', upd_statusCode = Some 428, upd_qr = None\<rparr>, \<lparr>upd_connection = Some ''close'', upd_statusCode = Some 428, upd_qr = None\<rparr>] (init_engine ''http://localhost:8000/webhook/whatsapp'' False)) = [3000, 3000]"
  by (simp add: is_drop_def loggedOut_def run_updates_def run_updates_p0_def
        on_connection_update_def on_connection_update_p0_def broadcast_def io_emit_def
        setTimeout_connect_def init_engine_def Let_def)

section \<open>The session store\<close>

lemma map_set_absent: "k \<notin> set (map fst m) \<Longrightarrow> map_set k v m = m @ [(k, v)]"
  by (induction m) auto

lemma distinct_map_set: "distinct (map fst m) \<Longrightarrow> distinct (map fst (map_set k v m))"
  by (simp add: keys_map_set)

lemma select_data_absent: "k \<notin> set (map fst m) \<Longrightarrow> select_data k m = []"
  by (induction m) (auto simp: select_data_def)

lemma select_data_map_set:
  "distinct (map fst m) \<Longrightarrow> select_data k (map_set k v m) = [v]"
proof (induction m)
  case Nil
  show ?case by (simp add: select_data_def)
next
  case (Cons e m)
  obtain k' v' where e: "e = (k', v')" by (cases e)
  show ?case
  proof (cases "k' = k")
    case True
    then have "k \<notin> set (map fst m)" using Cons.prems e by simp
    then have "select_data k m = []" by (rule select_data_absent)
    then show ?thesis using True e by (simp add: select_data_def)
  next
    case False
    then show ?thesis using Cons e by (simp add: select_data_def)
  qed
qed

lemma run_saves_distinct:
  "distinct (map fst tbl) \<Longrightarrow> distinct (map fst (run_saves stringify calls tbl))"
proof (induction calls arbitrary: tbl)
  case Nil
  then show ?case by simp
next
  case (Cons c calls)
  obtain fault sessionId data where c: "c = (fault, sessionId, data)" by (cases c)
  show ?case
  proof (cases fault)
    case None
    then show ?thesis
      using Cons c
      by (simp add: saveSession_def insert_on_duplicate_update_def distinct_map_set Let_def)
  next
    case (Some e)
    then show ?thesis using Cons c by (simp add: saveSession_def Let_def)
  qed
qed

text \<open>
  Claim C9. \<open>getSession\<close> of an identifier with no row returns \<open>null\<close>, not an
  error. \<open>saveSession\<close> is an upsert on the session identifier: with no row for the
  identifier it appends one; with a row it replaces that row's data and leaves the rows
  and their identifiers as they were; either way the identifier then selects exactly the
  saved blob, which \<open>getSession\<close> reads back. Session identifiers stay distinct under
  every run of saves, so no identifier ever has two rows.
\<close>

theorem c9_session_store:
  "(sessionId \<notin> set (map fst tbl) \<longrightarrow> getSession None parse sessionId tbl = Inr None)
   \<and> (sessionId \<notin> set (map fst tbl) \<longrightarrow>
        saveSession None stringify sessionId data tbl = Inr (tbl @ [(sessionId, stringify data)]))
   \<and> (distinct (map fst tbl) \<and> sessionId \<in> set (map fst tbl) \<longrightarrow>
        (\<exists>tbl'. saveSession None stringify sessionId data tbl = Inr tbl'
           \<and> map fst tbl' = map fst tbl
           \<and> select_data sessionId tbl' = [stringify data]))
   \<and> (distinct (map fst tbl) \<longrightarrow>
        (\<exists>tbl'. saveSession None stringify sessionId data tbl = Inr tbl'
           \<and> distinct (map fst tbl')
           \<and> select_data sessionId tbl' = [stringify data]
           \<and> getSession None parse sessionId tbl' = Inr (parse (stringify data))))
   \<and> (distinct (map fst tbl) \<longrightarrow> distinct (map fst (run_saves stringify calls tbl)))
   \<and> distinct (map fst (run_saves stringify calls []))"
proof (intro conjI impI)
  assume "sessionId \<notin> set (map fst tbl)"
  then show "getSession None parse sessionId tbl = Inr None"
    by (simp add: getSession_def select_data_absent)
next
  assume "sessionId \<notin> set (map fst tbl)"
  then show "saveSession None stringify sessionId data tbl = Inr (tbl @ [(sessionId, stringify data)])"
    by (simp add: saveSession_def insert_on_duplicate_update_def map_set_absent Let_def)
next
  assume a: "distinct (map fst tbl) \<and> sessionId \<in> set (map fst tbl)"
  have "map fst (map_set sessionId (stringify data) tbl) = map fst tbl"
    using a by (simp add: keys_map_set)
  moreover have "select_data sessionId (map_set sessionId (stringify data) tbl) = [stringify data]"
    using a by (simp add: select_data_map_set)
  ultimately show "\<exists>tbl'. saveSession None stringify sessionId data tbl = Inr tbl'
           \<and> map fst tbl' = map fst tbl \<and> select_data sessionId tbl' = [stringify data]"
    by (simp add: saveSession_def insert_on_duplicate_update_def Let_def)
next
  assume a: "distinct (map fst tbl)"
  let ?t = "map_set sessionId (stringify data) tbl"
  have s: "select_data sessionId ?t = [stringify data]"
    using a by (rule select_data_map_set)
  have "getSession None parse sessionId ?t = Inr (parse (stringify data))"
    by (simp add: getSession_def s split: option.splits)
  then show "\<exists>tbl'. saveSession None stringify sessionId data tbl = Inr tbl'
           \<and> distinct (map fst tbl')
           \<and> select_data sessionId tbl' = [stringify data]
           \<and> getSession None parse sessionId tbl' = Inr (parse (stringify data))"
    using a s by (simp add: saveSession_def insert_on_duplicate_update_def distinct_map_set Let_def)
next
  assume "distinct (map fst tbl)"
  then show "distinct (map fst (run_saves stringify calls tbl))" by (rule run_saves_distinct)
next
  show "distinct (map fst (run_saves stringify calls []))"
    by (rule run_saves_distinct) simp
qed

theorem c9_session_store_witness:
  "getSession None (\<lambda>t. Some (JStr t)) ''default'' [] = Inr None
   \<and> saveSession None (\<lambda>j. ''blob-1'') ''default'' JNull [] = Inr [(''default'', ''blob-1'')]
   \<and> distinct (map fst [(''other'', ''x''), (''default'', ''blob-1'')])
   \<and> saveSession None (\<lambda>j. ''blob-2'') ''default'' JNull
        [(''other'', ''x''), (''default'', ''blob-1'')] =
       Inr [(''other'', ''x''), (''default'', ''blob-2'')]
   \<and> getSession None (\<lambda>t. Some (JStr t)) ''default''
        [(''other'', ''x''), (''default'', ''blob-2'')] = Inr (Some (JStr ''blob-2''))
   \<and> run_saves (\<lambda>j. ''blob-2'')
        [(None, ''default'', JNull), (Some (Error ''read ECONNRESET''), ''default'', JNull),
         (None, ''default'', JNull)] [] = [(''default'', ''blob-2'')]"
  using c9_session_store [of "''default''" "[]" "\<lambda>t. Some (JStr t)" "\<lambda>j. ''blob-1''" JNull "[]"]
    c9_session_store [of "''default''" "[(''other'', ''x''), (''default'', ''blob-1'')]"
      "\<lambda>t. Some (JStr t)" "\<lambda>j. ''blob-2''" JNull
      "[(None, ''default'', JNull), (Some (Error ''read ECONNRESET''), ''default'', JNull),
         (None, ''default'', JNull)]"]
  by (simp add: saveSession_def insert_on_duplicate_update_def getSession_def select_data_def
        Let_def)

section \<open>Credential updates\<close>

lemma loop_step_creds_update:
  "sock (lp_engine st) = Some creds \<Longrightarrow>
     loop_step stringify toDataURL CredsUpdate st =
       st\<lparr>lp_suspended := lp_suspended st @ [AwaitGetAll creds]\<rparr>"
  by (simp add: loop_step_def)

lemma loop_step_connection_update:
  "loop_step stringify toDataURL (ConnectionUpdate u) st =
     st\<lparr>lp_engine := on_connection_update toDataURL u (lp_engine st)\<rparr>"
  by (simp add: loop_step_def)

lemma run_loop_uninterrupted:
  assumes "lp_suspended st = []"
    and "on_creds_update getAll fault stringify (lp_engine st) (lp_table st) = (r, s2, tbl2)"
  shows "lp_engine (run_loop stringify toDataURL
                      [CredsUpdate, GetAllSettles getAll, SaveSettles fault] st) = s2
       \<and> lp_table (run_loop stringify toDataURL
                      [CredsUpdate, GetAllSettles getAll, SaveSettles fault] st) = tbl2
       \<and> lp_suspended (run_loop stringify toDataURL
                      [CredsUpdate, GetAllSettles getAll, SaveSettles fault] st) = []
       \<and> lp_settled (run_loop stringify toDataURL
                      [CredsUpdate, GetAllSettles getAll, SaveSettles fault] st) =
           lp_settled st @ [r]"
  using assms
  by (auto simp: run_loop_def loop_step_def on_creds_update_def Let_def
        split: option.splits sum.splits)

lemma run_loop_overtaken:
  assumes "sock (lp_engine st) = Some creds"
  shows "lp_engine (run_loop stringify toDataURL [CredsUpdate, ConnectionUpdate u] st) =
           on_connection_update toDataURL u (lp_engine st)
       \<and> lp_table (run_loop stringify toDataURL [CredsUpdate, ConnectionUpdate u] st) = lp_table st
       \<and> lp_suspended (run_loop stringify toDataURL [CredsUpdate, ConnectionUpdate u] st) =
           lp_suspended st @ [AwaitGetAll creds]
       \<and> lp_settled (run_loop stringify toDataURL [CredsUpdate, ConnectionUpdate u] st) =
           lp_settled st"
  using assms by (simp add: run_loop_def loop_step_def)

text \<open>
  Claim C2, as the code of index.js has it. On a \<open>creds.update\<close> event the handler
  reads the credentials of the current socket, asks for all its keys and returns to the
  emitter at that first \<open>await\<close>, before \<open>saveSession\<close> is called; nothing makes
  later stream events wait for it, so a \<open>connection.update\<close> delivered next is
  processed while the handler is suspended and the table is as before. When the keys
  arrive the handler passes the blob of credentials and keys to
  \<open>saveSession("default", ...)\<close>; when that write succeeds the row of \<open>"default"\<close>
  holds exactly that blob, the handler then logs the update and its promise resolves, and
  whenever the promise resolves the write has completed. When the write fails the handler
  has no \<open>catch\<close>: its promise is rejected with the error, nothing is logged, and the
  engine and the table are as before. When the socket is gone or reading the keys fails,
  \<open>saveSession\<close> is not called and the promise is rejected. Run without another event
  in between, the parts of the handler do together what \<open>on_creds_update\<close> does.
\<close>

theorem c2_creds_update:
  "(sock s = Some creds \<and> distinct (map fst tbl) \<longrightarrow>
      (\<exists>tbl'. on_creds_update (Inr keys) None stringify s tbl =
                 (Inr (), console (ConsoleLog ''WhatsApp session updated in DB'' []) s, tbl')
         \<and> select_data ''default'' tbl' =
             [stringify (JObj [(''creds'', creds), (''keys'', keys)])]))
   \<and> (sock s = Some creds \<longrightarrow>
        on_creds_update (Inr keys) (Some e) stringify s tbl = (Inl e, s, tbl))
   \<and> (sock s = Some creds \<longrightarrow>
        on_creds_update (Inl e) fault stringify s tbl = (Inl e, s, tbl))
   \<and> (sock s = None \<longrightarrow>
        (\<exists>e'. on_creds_update getAll fault stringify s tbl = (Inl e', s, tbl)))
   \<and> (distinct (map fst tbl)
       \<and> on_creds_update getAll fault stringify s tbl = (Inr (), s', tbl') \<longrightarrow>
        (\<exists>creds keys. sock s = Some creds \<and> getAll = Inr keys
           \<and> select_data ''default'' tbl' =
               [stringify (JObj [(''creds'', creds), (''keys'', keys)])]
           \<and> s' = console (ConsoleLog ''WhatsApp session updated in DB'' []) s))
   \<and> (sock (lp_engine st) = Some creds \<longrightarrow>
        loop_step stringify toDataURL CredsUpdate st =
          st\<lparr>lp_suspended := lp_suspended st @ [AwaitGetAll creds]\<rparr>)
   \<and> loop_step stringify toDataURL (ConnectionUpdate u) st =
        st\<lparr>lp_engine := on_connection_update toDataURL u (lp_engine st)\<rparr>
   \<and> (sock (lp_engine st) = Some creds \<longrightarrow>
        lp_engine (run_loop stringify toDataURL [CredsUpdate, ConnectionUpdate u] st) =
          on_connection_update toDataURL u (lp_engine st)
        \<and> lp_table (run_loop stringify toDataURL [CredsUpdate, ConnectionUpdate u] st) =
            lp_table st
        \<and> lp_suspended (run_loop stringify toDataURL [CredsUpdate, ConnectionUpdate u] st) =
            lp_suspended st @ [AwaitGetAll creds]
        \<and> lp_settled (run_loop stringify toDataURL [CredsUpdate, ConnectionUpdate u] st) =
            lp_settled st)
   \<and> (lp_suspended st = []
       \<and> on_creds_update getAll fault stringify (lp_engine st) (lp_table st) = (r, s2, tbl2) \<longrightarrow>
        lp_engine (run_loop stringify toDataURL
                     [CredsUpdate, GetAllSettles getAll, SaveSettles fault] st) = s2
        \<and> lp_table (run_loop stringify toDataURL
                       [CredsUpdate, GetAllSettles getAll, SaveSettles fault] st) = tbl2
        \<and> lp_suspended (run_loop stringify toDataURL
                           [CredsUpdate, GetAllSettles getAll, SaveSettles fault] st) = []
        \<and> lp_settled (run_loop stringify toDataURL
                         [CredsUpdate, GetAllSettles getAll, SaveSettles fault] st) =
            lp_settled st @ [r])"
proof -
  have resolved: "\<exists>creds keys. sock s = Some creds \<and> getAll = Inr keys
           \<and> select_data ''default'' tbl' =
               [stringify (JObj [(''creds'', creds), (''keys'', keys)])]
           \<and> s' = console (ConsoleLog ''WhatsApp session updated in DB'' []) s"
    if d: "distinct (map fst tbl)"
      and r: "on_creds_update getAll fault stringify s tbl = (Inr (), s', tbl')"
  proof -
    obtain creds where c: "sock s = Some creds"
      using r by (cases "sock s") (simp_all add: on_creds_update_def)
    obtain keys where k: "getAll = Inr keys"
      using r c by (cases getAll) (simp_all add: on_creds_update_def)
    have f: "fault = None"
      using r c k by (cases fault) (simp_all add: on_creds_update_def saveSession_def Let_def)
    have "tbl' = map_set ''default'' (stringify (JObj [(''creds'', creds), (''keys'', keys)])) tbl"
      and "s' = console (ConsoleLog ''WhatsApp session updated in DB'' []) s"
      using r c k f
      by (simp_all add: on_creds_update_def saveSession_def insert_on_duplicate_update_def Let_def)
    then show ?thesis
      using c k d by (simp add: select_data_map_set)
  qed
  have handler: "(sock s = Some creds \<and> distinct (map fst tbl) \<longrightarrow>
      (\<exists>tbl'. on_creds_update (Inr keys) None stringify s tbl =
                 (Inr (), console (ConsoleLog ''WhatsApp session updated in DB'' []) s, tbl')
         \<and> select_data ''default'' tbl' =
             [stringify (JObj [(''creds'', creds), (''keys'', keys)])]))
   \<and> (sock s = Some creds \<longrightarrow>
        on_creds_update (Inr keys) (Some e) stringify s tbl = (Inl e, s, tbl))
   \<and> (sock s = Some creds \<longrightarrow>
        on_creds_update (Inl e) fault stringify s tbl = (Inl e, s, tbl))
   \<and> (sock s = None \<longrightarrow>
        (\<exists>e'. on_creds_update getAll fault stringify s tbl = (Inl e', s, tbl)))"
    by (simp add: on_creds_update_def saveSession_def insert_on_duplicate_update_def
          select_data_map_set Let_def)
  show ?thesis
    using handler resolved
      loop_step_creds_update [of st creds stringify toDataURL]
      loop_step_connection_update [of stringify toDataURL u st]
      run_loop_overtaken [of st creds stringify toDataURL u]
      run_loop_uninterrupted [of st getAll fault stringify r s2 tbl2 toDataURL]
    by blast
qed

theorem c2_creds_update_witness:
  "sock ((init_engine ''http://localhost:8000/webhook/whatsapp'' False)\<lparr>sock := Some (JObj [(''me'', JStr ''15550009999'')]), status := Connected\<rparr>) = Some (JObj [(''me'', JStr ''15550009999'')])
   \<and> on_creds_update (Inr (JObj [])) None (\<lambda>j. ''blob-2'') ((init_engine ''http://localhost:8000/webhook/whatsapp'' False)\<lparr>sock := Some (JObj [(''me'', JStr ''15550009999'')]), status := Connected\<rparr>) [(''default'', ''blob-1'')] =
       (Inr (), console (ConsoleLog ''WhatsApp session updated in DB'' []) ((init_engine ''http://localhost:8000/webhook/whatsapp'' False)\<lparr>sock := Some (JObj [(''me'', JStr ''15550009999'')]), status := Connected\<rparr>),
        [(''default'', ''blob-2'')])
   \<and> on_creds_update (Inr (JObj [])) (Some (Error ''read ECONNRESET'')) (\<lambda>j. ''blob-2'') ((init_engine ''http://localhost:8000/webhook/whatsapp'' False)\<lparr>sock := Some (JObj [(''me'', JStr ''15550009999'')]), status := Connected\<rparr>)
        [(''default'', ''blob-1'')] =
       (Inl (Error ''read ECONNRESET''), ((init_engine ''http://localhost:8000/webhook/whatsapp'' False)\<lparr>sock := Some (JObj [(''me'', JStr ''15550009999'')]), status := Connected\<rparr>), [(''default'', ''blob-1'')])
   \<and> on_creds_update (Inl (Error ''getAll is not a function'')) None (\<lambda>j. ''blob-2'') ((init_engine ''http://localhost:8000/webhook/whatsapp'' False)\<lparr>sock := Some (JObj [(''me'', JStr ''15550009999'')]), status := Connected\<rparr>)
        [(''default'', ''blob-1'')] =
       (Inl (Error ''getAll is not a function''), ((init_engine ''http://localhost:8000/webhook/whatsapp'' False)\<lparr>sock := Some (JObj [(''me'', JStr ''15550009999'')]), status := Connected\<rparr>), [(''default'', ''blob-1'')])
   \<and> sock (init_engine ''http://localhost:8000/webhook/whatsapp'' False) = None
   \<and> snd (on_creds_update (Inr (JObj [])) None (\<lambda>j. ''blob-2'') (init_engine ''http://localhost:8000/webhook/whatsapp'' False) [(''default'', ''blob-1'')]) =
       ((init_engine ''http://localhost:8000/webhook/whatsapp'' False), [(''default'', ''blob-1'')])
   \<and> lp_suspended (loop_step (\<lambda>j. ''blob-2'') (\<lambda>q. q) CredsUpdate \<lparr>lp_engine = (init_engine ''http://localhost:8000/webhook/whatsapp'' False)\<lparr>sock := Some (JObj [(''me'', JStr ''15550009999'')]), status := Connected\<rparr>, lp_table = [(''default'', ''blob-1'')], lp_suspended = [], lp_settled = []\<rparr>) =
       [AwaitGetAll (JObj [(''me'', JStr ''15550009999'')])]
   \<and> lp_table (run_loop (\<lambda>j. ''blob-2'') (\<lambda>q. q)
        [CredsUpdate, GetAllSettles (Inr (JObj [])), SaveSettles None] \<lparr>lp_engine = (init_engine ''http://localhost:8000/webhook/whatsapp'' False)\<lparr>sock := Some (JObj [(''me'', JStr ''15550009999'')]), status := Connected\<rparr>, lp_table = [(''default'', ''blob-1'')], lp_suspended = [], lp_settled = []\<rparr>) =
       [(''default'', ''blob-2'')]
   \<and> lp_settled (run_loop (\<lambda>j. ''blob-2'') (\<lambda>q. q)
        [CredsUpdate, GetAllSettles (Inr (JObj [])), SaveSettles None] \<lparr>lp_engine = (init_engine ''http://localhost:8000/webhook/whatsapp'' False)\<lparr>sock := Some (JObj [(''me'', JStr ''15550009999'')]), status := Connected\<rparr>, lp_table = [(''default'', ''blob-1'')], lp_suspended = [], lp_settled = []\<rparr>) = [Inr ()]"
proof -
  have h: "sock ((init_engine ''http://localhost:8000/webhook/whatsapp'' False)\<lparr>sock := Some (JObj [(''me'', JStr ''15550009999'')]), status := Connected\<rparr>) = Some (JObj [(''me'', JStr ''15550009999'')])"
    by (simp add: init_engine_def)
  have n: "sock (init_engine ''http://localhost:8000/webhook/whatsapp'' False) = None"
    by (simp add: init_engine_def)
  have l: "sock (lp_engine \<lparr>lp_engine = (init_engine ''http://localhost:8000/webhook/whatsapp'' False)\<lparr>sock := Some (JObj [(''me'', JStr ''15550009999'')]), status := Connected\<rparr>, lp_table = [(''default'', ''blob-1'')], lp_suspended = [], lp_settled = []\<rparr>) = Some (JObj [(''me'', JStr ''15550009999'')])"
    and l': "lp_suspended \<lparr>lp_engine = (init_engine ''http://localhost:8000/webhook/whatsapp'' False)\<lparr>sock := Some (JObj [(''me'', JStr ''15550009999'')]), status := Connected\<rparr>, lp_table = [(''default'', ''blob-1'')], lp_suspended = [], lp_settled = []\<rparr> = []"
    by (simp_all add: init_engine_def)
  have o: "on_creds_update (Inr (JObj [])) None (\<lambda>j. ''blob-2'') (lp_engine \<lparr>lp_engine = (init_engine ''http://localhost:8000/webhook/whatsapp'' False)\<lparr>sock := Some (JObj [(''me'', JStr ''15550009999'')]), status := Connected\<rparr>, lp_table = [(''default'', ''blob-1'')], lp_suspended = [], lp_settled = []\<rparr>) (lp_table \<lparr>lp_engine = (init_engine ''http://localhost:8000/webhook/whatsapp'' False)\<lparr>sock := Some (JObj [(''me'', JStr ''15550009999'')]), status := Connected\<rparr>, lp_table = [(''default'', ''blob-1'')], lp_suspended = [], lp_settled = []\<rparr>) =
       (Inr (), console (ConsoleLog ''WhatsApp session updated in DB'' []) ((init_engine ''http://localhost:8000/webhook/whatsapp'' False)\<lparr>sock := Some (JObj [(''me'', JStr ''15550009999'')]), status := Connected\<rparr>),
        [(''default'', ''blob-2'')])"
    by (simp add: on_creds_update_def saveSession_def insert_on_duplicate_update_def
          init_engine_def Let_def)
  show ?thesis
    using h n l l' o
      c2_creds_update [of "(init_engine ''http://localhost:8000/webhook/whatsapp'' False)\<lparr>sock := Some (JObj [(''me'', JStr ''15550009999'')]), status := Connected\<rparr>" "JObj [(''me'', JStr ''15550009999'')]"
        "[(''default'', ''blob-1'')]" "JObj []" "\<lambda>j. ''blob-2''" "Error ''read ECONNRESET''"]
      c2_creds_update [of "(init_engine ''http://localhost:8000/webhook/whatsapp'' False)\<lparr>sock := Some (JObj [(''me'', JStr ''15550009999'')]), status := Connected\<rparr>" "JObj [(''me'', JStr ''15550009999'')]"
        "[(''default'', ''blob-1'')]" "JObj []" "\<lambda>j. ''blob-2''"
        "Error ''getAll is not a function''" None]
      c2_creds_update [of "init_engine ''http://localhost:8000/webhook/whatsapp'' False" _ "[(''default'', ''blob-1'')]" "JObj []"
        "\<lambda>j. ''blob-2''" _ None "Inr (JObj [])"]
      c2_creds_update [where st = "\<lparr>lp_engine = (init_engine ''http://localhost:8000/webhook/whatsapp'' False)\<lparr>sock := Some (JObj [(''me'', JStr ''15550009999'')]), status := Connected\<rparr>, lp_table = [(''default'', ''blob-1'')], lp_suspended = [], lp_settled = []\<rparr>" and creds = "JObj [(''me'', JStr ''15550009999'')]"
        and stringify = "\<lambda>j. ''blob-2''" and toDataURL = "\<lambda>q. q"
        and getAll = "Inr (JObj [])" and fault = None and r = "Inr ()"
        and ?s2.0 = "console (ConsoleLog ''WhatsApp session updated in DB'' []) ((init_engine ''http://localhost:8000/webhook/whatsapp'' False)\<lparr>sock := Some (JObj [(''me'', JStr ''15550009999'')]), status := Connected\<rparr>)"
        and ?tbl2.0 = "[(''default'', ''blob-2'')]"]
    by (simp add: on_creds_update_def saveSession_def insert_on_duplicate_update_def Let_def)
qed

text \<open>
  The claim as stated has the write completed before the next stream event is
  processed, and a persistence failure logged. With \<open>creds.update\<close> followed at once
  by a \<open>connection.update\<close> that closes the connection, the close has been handled
  (status disconnected, a reconnection timer pending) while the handler is still
  suspended before its write and the table holds the old blob. And with a database call
  that throws, the handler's promise is rejected with the error and the log is still
  empty.
\<close>

theorem c2_counterexample:
  "status (lp_engine (run_loop (\<lambda>j. ''blob-2'') (\<lambda>q. q) [CredsUpdate, ConnectionUpdate \<lparr>upd_connection = Some ''close'', upd_statusCode = Some 428, upd_qr = None\<rparr>] \<lparr>lp_engine = (init_engine ''http://localhost:8000/webhook/whatsapp'' False)\<lparr>sock := Some (JObj [(''me'', JStr ''15550009999'')]), status := Connected\<rparr>, lp_table = [(''default'', ''blob-1'')], lp_suspended = [], lp_settled = []\<rparr>)) =
     Disconnected
   \<and> timers (lp_engine (run_loop (\<lambda>j. ''blob-2'') (\<lambda>q. q)
        [CredsUpdate, ConnectionUpdate \<lparr>upd_connection = Some ''close'', upd_statusCode = Some 428, upd_qr = None\<rparr>] \<lparr>lp_engine = (init_engine ''http://localhost:8000/webhook/whatsapp'' False)\<lparr>sock := Some (JObj [(''me'', JStr ''15550009999'')]), status := Connected\<rparr>, lp_table = [(''default'', ''blob-1'')], lp_suspended = [], lp_settled = []\<rparr>)) = [3000]
   \<and> lp_suspended (run_loop (\<lambda>j. ''blob-2'') (\<lambda>q. q) [CredsUpdate, ConnectionUpdate \<lparr>upd_connection = Some ''close'', upd_statusCode = Some 428, upd_qr = None\<rparr>] \<lparr>lp_engine = (init_engine ''http://localhost:8000/webhook/whatsapp'' False)\<lparr>sock := Some (JObj [(''me'', JStr ''15550009999'')]), status := Connected\<rparr>, lp_table = [(''default'', ''blob-1'')], lp_suspended = [], lp_settled = []\<rparr>) =
       [AwaitGetAll (JObj [(''me'', JStr ''15550009999'')])]
   \<and> lp_table (run_loop (\<lambda>j. ''blob-2'') (\<lambda>q. q) [CredsUpdate, ConnectionUpdate \<lparr>upd_connection = Some ''close'', upd_statusCode = Some 428, upd_qr = None\<rparr>] \<lparr>lp_engine = (init_engine ''http://localhost:8000/webhook/whatsapp'' False)\<lparr>sock := Some (JObj [(''me'', JStr ''15550009999'')]), status := Connected\<rparr>, lp_table = [(''default'', ''blob-1'')], lp_suspended = [], lp_settled = []\<rparr>) =
       [(''default'', ''blob-1'')]
   \<and> fst (on_creds_update (Inr (JObj [])) (Some (Error ''read ECONNRESET'')) (\<lambda>j. ''blob-2'') ((init_engine ''http://localhost:8000/webhook/whatsapp'' False)\<lparr>sock := Some (JObj [(''me'', JStr ''15550009999'')]), status := Connected\<rparr>)
          [(''default'', ''blob-1'')]) = Inl (Error ''read ECONNRESET'')
   \<and> logs (fst (snd (on_creds_update (Inr (JObj [])) (Some (Error ''read ECONNRESET''))
          (\<lambda>j. ''blob-2'') ((init_engine ''http://localhost:8000/webhook/whatsapp'' False)\<lparr>sock := Some (JObj [(''me'', JStr ''15550009999'')]), status := Connected\<rparr>) [(''default'', ''blob-1'')]))) = []
   \<and> lp_settled (run_loop (\<lambda>j. ''blob-2'') (\<lambda>q. q)
        [CredsUpdate, GetAllSettles (Inr (JObj [])), SaveSettles (Some (Error ''read ECONNRESET''))]
        \<lparr>lp_engine = (init_engine ''http://localhost:8000/webhook/whatsapp'' False)\<lparr>sock := Some (JObj [(''me'', JStr ''15550009999'')]), status := Connected\<rparr>, lp_table = [(''default'', ''blob-1'')], lp_suspended = [], lp_settled = []\<rparr>) = [Inl (Error ''read ECONNRESET'')]
   \<and> logs (lp_engine (run_loop (\<lambda>j. ''blob-2'') (\<lambda>q. q)
        [CredsUpdate, GetAllSettles (Inr (JObj [])), SaveSettles (Some (Error ''read ECONNRESET''))]
        \<lparr>lp_engine = (init_engine ''http://localhost:8000/webhook/whatsapp'' False)\<lparr>sock := Some (JObj [(''me'', JStr ''15550009999'')]), status := Connected\<rparr>, lp_table = [(''default'', ''blob-1'')], lp_suspended = [], lp_settled = []\<rparr>)) = []"
  by (simp add: run_loop_def loop_step_def on_connection_update_def broadcast_def io_emit_def
        setTimeout_connect_def loggedOut_def on_creds_update_def saveSession_def init_engine_def
        Let_def)

section \<open>Incoming messages\<close>

lemma messages_push_last:
  "stored_messages jid (messages_push jid d msgs) \<noteq> []
   \<and> last (stored_messages jid (messages_push jid d msgs)) = d"
proof -
  let ?pushed = "(case map_of msgs jid of None \<Rightarrow> [] | Some xs \<Rightarrow> xs) @ [d]"
  have s: "stored_messages jid (messages_push jid d msgs) =
             (if length ?pushed > 50 then tl ?pushed else ?pushed)"
    by (simp add: stored_messages_def messages_push_same Let_def)
  show ?thesis
  proof (cases "length ?pushed > 50")
    case False
    then show ?thesis using s by simp
  next
    case True
    then have "tl ?pushed \<noteq> []"
      by (cases "case map_of msgs jid of None \<Rightarrow> [] | Some xs \<Rightarrow> xs") auto
    then show ?thesis using s True by (simp add: last_tl)
  qed
qed

lemma conversations_push_last:
  "stored_messages jid (conversations_push jid d convs) = stored_messages jid convs @ [d]"
  by (simp add: stored_messages_def conversations_push_def map_of_map_set Let_def)

lemma on_messages_upsert_p0_notify:
  assumes "up_messages ev = m # rest" and "up_type ev = ''notify''"
  shows "on_messages_upsert_p0 now net ev s =
     console (ConsoleLog (''New message from '' @ msg_from (message_data_of now m) @ '': '' @
                           msg_text (message_data_of now m)) [])
       (if msg_fromMe (message_data_of now m)
        then io_emit ''new-message'' (message_json (message_data_of now m))
               (s\<lparr>messages := messages_push (key_remoteJid m) (message_data_of now m) (messages s),
                  conversations :=
                    conversations_push (key_remoteJid m) (message_data_of now m) (conversations s)\<rparr>)
        else snd (sendWebhook_p0 ''message_received''
                    (message_received_data (message_data_of now m)) now net
                    (io_emit ''new-message'' (message_json (message_data_of now m))
                       (s\<lparr>messages :=
                            messages_push (key_remoteJid m) (message_data_of now m) (messages s),
                          conversations :=
                            conversations_push (key_remoteJid m) (message_data_of now m)
                              (conversations s)\<rparr>))))"
  using assms by (simp add: on_messages_upsert_p0_def Let_def)

text \<open>
  Claim C5, as the code has it. A \<open>messages.upsert\<close> event is handled only when its
  type is \<open>notify\<close> and it carries a message, and then only its first message: the
  record derived from it (the plain text, else the extended text, else
  \<open>[Media/Other]\<close>) becomes the last record of the peer's buffer and of the peer's
  conversation, is emitted once as \<open>new-message\<close>, and is handed to \<open>sendWebhook\<close>
  as a \<open>message_received\<close> event exactly once when \<open>fromMe\<close> is false and not at
  all when it is true; with \<open>fromMe\<close> true nothing is posted and only the handler's
  own line is logged. An event of another type, or with no message, changes nothing and
  emits nothing.
\<close>

theorem c5_message_received:
  "(up_messages ev = m # rest \<and> up_type ev = ''notify'' \<longrightarrow>
      msg_text (message_data_of now m) =
        (if truthy (m_conversation m) then the (m_conversation m)
         else if truthy (m_extendedText m) then the (m_extendedText m)
         else ''[Media/Other]'')
      \<and> last (stored_messages (key_remoteJid m)
                (messages (on_messages_upsert_p0 now net ev s))) = message_data_of now m
      \<and> stored_messages (key_remoteJid m) (conversations (on_messages_upsert_p0 now net ev s)) =
          stored_messages (key_remoteJid m) (conversations s) @ [message_data_of now m]
      \<and> emitted (on_messages_upsert_p0 now net ev s) =
          emitted s @ [(''new-message'', message_json (message_data_of now m))]
      \<and> on_messages_upsert_p0 now net ev s =
          console (ConsoleLog (''New message from '' @ msg_from (message_data_of now m) @ '': '' @
                                msg_text (message_data_of now m)) [])
            (if msg_fromMe (message_data_of now m)
             then io_emit ''new-message'' (message_json (message_data_of now m))
                    (s\<lparr>messages :=
                         messages_push (key_remoteJid m) (message_data_of now m) (messages s),
                       conversations :=
                         conversations_push (key_remoteJid m) (message_data_of now m)
                           (conversations s)\<rparr>)
             else snd (sendWebhook_p0 ''message_received''
                         (message_received_data (message_data_of now m)) now net
                         (io_emit ''new-message'' (message_json (message_data_of now m))
                            (s\<lparr>messages :=
                                 messages_push (key_remoteJid m) (message_data_of now m) (messages s),
                               conversations :=
                                 conversations_push (key_remoteJid m) (message_data_of now m)
                                   (conversations s)\<rparr>))))
      \<and> (msg_fromMe (message_data_of now m) \<longrightarrow>
           posts (on_messages_upsert_p0 now net ev s) = posts s
           \<and> logs (on_messages_upsert_p0 now net ev s) =
               logs s @ [ConsoleLog (''New message from '' @ msg_from (message_data_of now m) @
                                      '': '' @ msg_text (message_data_of now m)) []]))
   \<and> (up_messages ev = [] \<or> up_type ev \<noteq> ''notify'' \<longrightarrow>
        on_messages_upsert_p0 now net ev s = s)"
proof (intro conjI impI)
  assume a: "up_messages ev = m # rest \<and> up_type ev = ''notify''"
  let ?d = "message_data_of now m"
  let ?jid = "key_remoteJid m"
  let ?s3 = "io_emit ''new-message'' (message_json ?d)
                 (s\<lparr>messages := messages_push ?jid ?d (messages s),
                    conversations := conversations_push ?jid ?d (conversations s)\<rparr>)"
  let ?w = "snd (sendWebhook_p0 ''message_received'' (message_received_data ?d) now net ?s3)"
  have r: "on_messages_upsert_p0 now net ev s =
             console (ConsoleLog (''New message from '' @ msg_from ?d @ '': '' @ msg_text ?d) [])
               (if msg_fromMe ?d then ?s3 else ?w)"
    using a on_messages_upsert_p0_notify [of ev m rest now net s] by simp
  show "on_messages_upsert_p0 now net ev s =
             console (ConsoleLog (''New message from '' @ msg_from ?d @ '': '' @ msg_text ?d) [])
               (if msg_fromMe ?d then ?s3 else ?w)"
    by (rule r)
  show "msg_text ?d =
        (if truthy (m_conversation m) then the (m_conversation m)
         else if truthy (m_extendedText m) then the (m_extendedText m)
         else ''[Media/Other]'')"
    by (simp add: message_data_of_def message_text_def)
  have m: "messages (on_messages_upsert_p0 now net ev s) = messages_push ?jid ?d (messages s)"
    unfolding r using sendWebhook_p0_frame [of "''message_received''" _ now net ?s3]
    by (simp add: console_def io_emit_def)
  show "last (stored_messages ?jid (messages (on_messages_upsert_p0 now net ev s))) = ?d"
    unfolding m using messages_push_last by blast
  have c: "conversations (on_messages_upsert_p0 now net ev s) =
             conversations_push ?jid ?d (conversations s)"
    unfolding r using sendWebhook_p0_frame [of "''message_received''" _ now net ?s3]
    by (simp add: console_def io_emit_def)
  show "stored_messages ?jid (conversations (on_messages_upsert_p0 now net ev s)) =
          stored_messages ?jid (conversations s) @ [?d]"
    unfolding c by (rule conversations_push_last)
  show "emitted (on_messages_upsert_p0 now net ev s) =
          emitted s @ [(''new-message'', message_json ?d)]"
    unfolding r using sendWebhook_p0_frame [of "''message_received''" _ now net ?s3]
    by (simp add: console_def io_emit_def)
  {
    assume f: "msg_fromMe ?d"
    show "posts (on_messages_upsert_p0 now net ev s) = posts s"
      unfolding r using f by (simp add: console_def io_emit_def)
    show "logs (on_messages_upsert_p0 now net ev s) =
               logs s @ [ConsoleLog (''New message from '' @ msg_from ?d @ '': '' @ msg_text ?d) []]"
      unfolding r using f by (simp add: console_def io_emit_def)
  }
next
  assume "up_messages ev = [] \<or> up_type ev \<noteq> ''notify''"
  then show "on_messages_upsert_p0 now net ev s = s"
    by (auto simp: on_messages_upsert_p0_def split: list.splits)
qed

theorem c5_message_received_witness:
  "stored_messages ''15550000000@s.whatsapp.net''
     (messages (on_messages_upsert_p0 1700000000500 (Responded 200 ''OK'' JNull)
        \<lparr>up_messages = [\<lparr>key_remoteJid = ''15550000000@s.whatsapp.net'', key_id = ''3EB0A1'', key_fromMe = Some False, m_conversation = Some ''hello'', m_extendedText = None, m_timestamp = Some 1700000000\<rparr>], up_type = ''notify''\<rparr> ((init_engine ''http://localhost:8000/webhook/whatsapp'' False)\<lparr>sock := Some JNull, status := Connected\<rparr>))) = [\<lparr>msg_id = ''3EB0A1'', msg_from = ''15550000000'', msg_text = ''hello'', msg_timestamp = 1700000000, msg_fromMe = False\<rparr>]
   \<and> emitted (on_messages_upsert_p0 1700000000500 (Responded 200 ''OK'' JNull)
        \<lparr>up_messages = [\<lparr>key_remoteJid = ''15550000000@s.whatsapp.net'', key_id = ''3EB0A1'', key_fromMe = Some False, m_conversation = Some ''hello'', m_extendedText = None, m_timestamp = Some 1700000000\<rparr>], up_type = ''notify''\<rparr> ((init_engine ''http://localhost:8000/webhook/whatsapp'' False)\<lparr>sock := Some JNull, status := Connected\<rparr>)) = [(''new-message'', message_json \<lparr>msg_id = ''3EB0A1'', msg_from = ''15550000000'', msg_text = ''hello'', msg_timestamp = 1700000000, msg_fromMe = False\<rparr>)]
   \<and> msg_fromMe (message_data_of 1700000000500 \<lparr>key_remoteJid = ''15550000000@s.whatsapp.net'', key_id = ''3EB0A2'', key_fromMe = Some True, m_conversation = None, m_extendedText = None, m_timestamp = Some 1700000001\<rparr>)
   \<and> stored_messages ''15550000000@s.whatsapp.net''
     (messages (on_messages_upsert_p0 1700000000500 (Responded 200 ''OK'' JNull)
        \<lparr>up_messages = [\<lparr>key_remoteJid = ''15550000000@s.whatsapp.net'', key_id = ''3EB0A2'', key_fromMe = Some True, m_conversation = None, m_extendedText = None, m_timestamp = Some 1700000001\<rparr>], up_type = ''notify''\<rparr> ((init_engine ''http://localhost:8000/webhook/whatsapp'' False)\<lparr>sock := Some JNull, status := Connected\<rparr>))) = [\<lparr>msg_id = ''3EB0A2'', msg_from = ''15550000000'', msg_text = ''[Media/Other]'', msg_timestamp = 1700000001, msg_fromMe = True\<rparr>]
   \<and> emitted (on_messages_upsert_p0 1700000000500 (Responded 200 ''OK'' JNull)
        \<lparr>up_messages = [\<lparr>key_remoteJid = ''15550000000@s.whatsapp.net'', key_id = ''3EB0A2'', key_fromMe = Some True, m_conversation = None, m_extendedText = None, m_timestamp = Some 1700000001\<rparr>], up_type = ''notify''\<rparr> ((init_engine ''http://localhost:8000/webhook/whatsapp'' False)\<lparr>sock := Some JNull, status := Connected\<rparr>)) = [(''new-message'', message_json \<lparr>msg_id = ''3EB0A2'', msg_from = ''15550000000'', msg_text = ''[Media/Other]'', msg_timestamp = 1700000001, msg_fromMe = True\<rparr>)]
   \<and> posts (on_messages_upsert_p0 1700000000500 (Responded 200 ''OK'' JNull)
        \<lparr>up_messages = [\<lparr>key_remoteJid = ''15550000000@s.whatsapp.net'', key_id = ''3EB0A2'', key_fromMe = Some True, m_conversation = None, m_extendedText = None, m_timestamp = Some 1700000001\<rparr>], up_type = ''notify''\<rparr> ((init_engine ''http://localhost:8000/webhook/whatsapp'' False)\<lparr>sock := Some JNull, status := Connected\<rparr>)) = []
   \<and> logs (on_messages_upsert_p0 1700000000500 (Responded 200 ''OK'' JNull)
        \<lparr>up_messages = [\<lparr>key_remoteJid = ''15550000000@s.whatsapp.net'', key_id = ''3EB0A2'', key_fromMe = Some True, m_conversation = None, m_extendedText = None, m_timestamp = Some 1700000001\<rparr>], up_type = ''notify''\<rparr> ((init_engine ''http://localhost:8000/webhook/whatsapp'' False)\<lparr>sock := Some JNull, status := Connected\<rparr>)) =
       [ConsoleLog ''New message from 15550000000: [Media/Other]'' []]
   \<and> on_messages_upsert_p0 1700000000500 (Responded 200 ''OK'' JNull)
        \<lparr>up_messages = [], up_type = ''notify''\<rparr> ((init_engine ''http://localhost:8000/webhook/whatsapp'' False)\<lparr>sock := Some JNull, status := Connected\<rparr>) = ((init_engine ''http://localhost:8000/webhook/whatsapp'' False)\<lparr>sock := Some JNull, status := Connected\<rparr>)"
  using c5_message_received [of "\<lparr>up_messages = [\<lparr>key_remoteJid = ''15550000000@s.whatsapp.net'', key_id = ''3EB0A1'', key_fromMe = Some False, m_conversation = Some ''hello'', m_extendedText = None, m_timestamp = Some 1700000000\<rparr>], up_type = ''notify''\<rparr>" "\<lparr>key_remoteJid = ''15550000000@s.whatsapp.net'', key_id = ''3EB0A1'', key_fromMe = Some False, m_conversation = Some ''hello'', m_extendedText = None, m_timestamp = Some 1700000000\<rparr>" "[]"
      1700000000500 "Responded 200 ''OK'' JNull" "(init_engine ''http://localhost:8000/webhook/whatsapp'' False)\<lparr>sock := Some JNull, status := Connected\<rparr>"]
    c5_message_received [of "\<lparr>up_messages = [\<lparr>key_remoteJid = ''15550000000@s.whatsapp.net'', key_id = ''3EB0A2'', key_fromMe = Some True, m_conversation = None, m_extendedText = None, m_timestamp = Some 1700000001\<rparr>], up_type = ''notify''\<rparr>" "\<lparr>key_remoteJid = ''15550000000@s.whatsapp.net'', key_id = ''3EB0A2'', key_fromMe = Some True, m_conversation = None, m_extendedText = None, m_timestamp = Some 1700000001\<rparr>" "[]"
      1700000000500 "Responded 200 ''OK'' JNull" "(init_engine ''http://localhost:8000/webhook/whatsapp'' False)\<lparr>sock := Some JNull, status := Connected\<rparr>"]
    c5_message_received [of "\<lparr>up_messages = [], up_type = ''notify''\<rparr>" _ _
      1700000000500 "Responded 200 ''OK'' JNull" "(init_engine ''http://localhost:8000/webhook/whatsapp'' False)\<lparr>sock := Some JNull, status := Connected\<rparr>"]
  by (simp add: init_engine_def message_data_of_def message_text_def strip_suffixes_def
        on_messages_upsert_p0_def messages_push_def conversations_push_def stored_messages_def
        io_emit_def console_def sendWebhook_p0_eq Let_def)

text \<open>
  The claim as stated covers every message-received stream event. An event of type
  \<open>append\<close> that carries a message from a peer is not archived, not broadcast and
  not forwarded: the engine is left as it was.
\<close>

theorem c5_counterexample:
  "on_messages_upsert_p0 1700000000500 (Responded 200 ''OK'' JNull)
     \<lparr>up_messages = [\<lparr>key_remoteJid = ''15550000000@s.whatsapp.net'', key_id = ''3EB0A1'', key_fromMe = Some False, m_conversation = Some ''hello'', m_extendedText = None, m_timestamp = Some 1700000000\<rparr>], up_type = ''append''\<rparr> ((init_engine ''http://localhost:8000/webhook/whatsapp'' False)\<lparr>sock := Some JNull, status := Connected\<rparr>) = ((init_engine ''http://localhost:8000/webhook/whatsapp'' False)\<lparr>sock := Some JNull, status := Connected\<rparr>)
   \<and> messages ((init_engine ''http://localhost:8000/webhook/whatsapp'' False)\<lparr>sock := Some JNull, status := Connected\<rparr>) = [] \<and> emitted ((init_engine ''http://localhost:8000/webhook/whatsapp'' False)\<lparr>sock := Some JNull, status := Connected\<rparr>) = [] \<and> posts ((init_engine ''http://localhost:8000/webhook/whatsapp'' False)\<lparr>sock := Some JNull, status := Connected\<rparr>) = []"
  by (simp add: on_messages_upsert_p0_def init_engine_def)

end
